theory Spec2Isabelle
  imports Main "HOL-Library.Word" "HOL-Library.AList"
begin

section \<open>Data model (src/types/index.ts)\<close>

text \<open>
  A \<^verbatim>\<open>Uint8Array\<close> is a list of 8-bit words. A JavaScript string is kept as the list of
  the bytes of its UTF-8 text, so \<^verbatim>\<open>TextEncoder.encode(s).length\<close> is the length of the list.
  A \<^verbatim>\<open>Map\<close> is an association list in insertion order: \<^verbatim>\<open>set\<close> is \<open>AList.update\<close>
  (an existing key keeps its place, a new key goes last), \<^verbatim>\<open>get\<close> is \<open>map_of\<close>. A \<^verbatim>\<open>Set\<close>
  is a list without repetition, in insertion order. Numbers that count (counters, lengths,
  timestamps) are natural numbers; a \<^verbatim>\<open>limit\<close> or \<^verbatim>\<open>timeout\<close> argument is an integer.
\<close>

type_synonym bytes = "8 word list"

datatype NodeStatus = Stopped | Starting | Running | Stopping

record ChatMessage =
  msgId :: string
  msg :: string
  fileObjectUrl :: "string option"
  peerId :: string
  read :: bool
  receivedAt :: nat

record ChatFile =
  id_file :: string
  body :: bytes
  sender :: string

text \<open>The fields of a collaborator's \<^verbatim>\<open>Connection\<close> that this code reads.\<close>

record Connection =
  id_conn :: string
  remotePeer :: string
  remoteAddr :: string
  protoNames :: "string list"

text \<open>
  The node handle \<^verbatim>\<open>Libp2pType\<close> is a reference to the collaborator's node. The model keeps
  what identifies it: the text of its \<^verbatim>\<open>peerId\<close>, and whether \<^verbatim>\<open>services.ping\<close> is there.
\<close>

record Libp2pType =
  peerId_node :: string
  services_ping :: bool

record NodeConfig =
  transports :: "string list option"
  enableRelay :: "bool option"
  bootstrapPeers :: "string list option"
  listenAddresses :: "string list option"

text \<open>
  \<^verbatim>\<open>StateManager\<close> (src/state.ts): the fields of its \<^verbatim>\<open>state\<close>, then \<^verbatim>\<open>startTime\<close> and the
  four counters of \<^verbatim>\<open>stats\<close>.
\<close>

record StateManager =
  libp2pNode :: "Libp2pType option"
  activeConnections :: "(string \<times> Connection) list"
  messageHistory :: "(string \<times> ChatMessage list) list"
  directMessages :: "(string \<times> ChatMessage list) list"
  sharedFiles :: "(string \<times> ChatFile) list"
  subscriptions :: "string list"
  nodeStatus :: NodeStatus
  startTime :: nat
  messagesReceived :: nat
  messagesSent :: nat
  bytesReceived :: nat
  bytesSent :: nat

section \<open>Constants (src/constants.ts)\<close>

definition CHAT_TOPIC :: string where
  "CHAT_TOPIC = ''universal-connectivity''"

definition CHAT_FILE_TOPIC :: string where
  "CHAT_FILE_TOPIC = ''universal-connectivity-file''"

definition FILE_EXCHANGE_PROTOCOL :: string where
  "FILE_EXCHANGE_PROTOCOL = ''/universal-connectivity-file/1''"

section \<open>Exceptions\<close>

text \<open>
  A thrown value is either an \<^verbatim>\<open>Error\<close> this code builds with \<^verbatim>\<open>new Error(message)\<close>, or a
  value the runtime or a collaborator raised, kept as the text a template literal prints
  for it. \<open>to_text\<close> is that printing: an \<^verbatim>\<open>Error\<close> prints as \<^verbatim>\<open>Error: message\<close>, or as
  \<^verbatim>\<open>Error\<close> when the message is empty.
\<close>

datatype exn = Error string | Raised string

fun to_text :: "exn \<Rightarrow> string" where
  "to_text (Error m) = (if m = [] then ''Error'' else ''Error: '' @ m)"
| "to_text (Raised t) = t"

section \<open>The registry store (src/state.ts)\<close>

definition initial :: StateManager where
  "initial = \<lparr> libp2pNode = None, activeConnections = [], messageHistory = [],
     directMessages = [], sharedFiles = [], subscriptions = [], nodeStatus = Stopped,
     startTime = 0, messagesReceived = 0, messagesSent = 0, bytesReceived = 0,
     bytesSent = 0 \<rparr>"

text \<open>\<^verbatim>\<open>setNodeStatus\<close> reads the clock (\<^verbatim>\<open>Date.now()\<close>, the argument \<open>clock\<close>) the first time
  the status becomes running.\<close>

definition setNodeStatus :: "NodeStatus \<Rightarrow> nat \<Rightarrow> StateManager \<Rightarrow> StateManager" where
  "setNodeStatus status clock sm =
     (let sm1 = sm\<lparr>nodeStatus := status\<rparr>
      in if status = Running \<and> startTime sm1 = 0 then sm1\<lparr>startTime := clock\<rparr> else sm1)"

definition setLibp2pNode :: "Libp2pType option \<Rightarrow> StateManager \<Rightarrow> StateManager" where
  "setLibp2pNode node sm = sm\<lparr>libp2pNode := node\<rparr>"

text \<open>\<^verbatim>\<open>updateConnections\<close>: clear the map, then \<^verbatim>\<open>set(conn.id, conn)\<close> for each connection
  of the list, in order.\<close>

definition updateConnections :: "Connection list \<Rightarrow> StateManager \<Rightarrow> StateManager" where
  "updateConnections connections sm =
     sm\<lparr>activeConnections := foldl (\<lambda>m conn. AList.update (id_conn conn) conn m) [] connections\<rparr>"

definition getMessages :: "StateManager \<Rightarrow> string \<Rightarrow> ChatMessage list" where
  "getMessages sm topic = (case map_of (messageHistory sm) topic of Some ms \<Rightarrow> ms | None \<Rightarrow> [])"

text \<open>
  \<^verbatim>\<open>directMessages\<close> is a plain object, so \<^verbatim>\<open>directMessages[peerId]\<close> follows the prototype
  chain: an own property gives its array; otherwise a name that \<^verbatim>\<open>Object.prototype\<close>
  defines gives the inherited value (a function, or the prototype itself for
  \<^verbatim>\<open>__proto__\<close>), which is truthy and is not an array; any other name gives \<^verbatim>\<open>undefined\<close>.
\<close>

definition object_prototype_names :: "string list" where
  "object_prototype_names =
     [''constructor'', ''__defineGetter__'', ''__defineSetter__'', ''hasOwnProperty'',
      ''__lookupGetter__'', ''__lookupSetter__'', ''isPrototypeOf'', ''propertyIsEnumerable'',
      ''toString'', ''valueOf'', ''__proto__'', ''toLocaleString'']"

text \<open>What \<^verbatim>\<open>getDirectMessages\<close> returns: an array of messages, or an inherited value that
  is not an array.\<close>

datatype direct_value = Messages "ChatMessage list" | Inherited_value

definition getDirectMessages :: "StateManager \<Rightarrow> string \<Rightarrow> direct_value" where
  "getDirectMessages sm pid =
     (case map_of (directMessages sm) pid of
        Some ms \<Rightarrow> Messages ms
      | None \<Rightarrow> if pid \<in> set object_prototype_names then Inherited_value else Messages [])"

text \<open>\<^verbatim>\<open>addMessage\<close>: an absent topic first gets the empty array; the message is pushed on
  the array stored under the topic; \<^verbatim>\<open>messagesReceived\<close> goes up by one.\<close>

definition addMessage :: "string \<Rightarrow> ChatMessage \<Rightarrow> StateManager \<Rightarrow> StateManager" where
  "addMessage topic message sm =
     (let mh = (if map_of (messageHistory sm) topic = None
                then AList.update topic [] (messageHistory sm) else messageHistory sm);
          stored = (case map_of mh topic of Some ms \<Rightarrow> ms | None \<Rightarrow> [])
      in sm\<lparr>messageHistory := AList.update topic (stored @ [message]) mh,
            messagesReceived := messagesReceived sm + 1\<rparr>)"

text \<open>\<^verbatim>\<open>addDirectMessage\<close>: an inherited value passes the test \<^verbatim>\<open>!directMessages[peerId]\<close>
  as present, and \<^verbatim>\<open>push\<close> on it raises a \<^verbatim>\<open>TypeError\<close> before anything is stored. An
  absent name first gets the empty array.\<close>

definition addDirectMessage :: "string \<Rightarrow> ChatMessage \<Rightarrow> StateManager \<Rightarrow> exn + StateManager" where
  "addDirectMessage pid message sm =
     (if map_of (directMessages sm) pid = None \<and> pid \<in> set object_prototype_names
      then Inl (Raised ''TypeError: this.state.directMessages[peerId].push is not a function'')
      else (let dm = (if map_of (directMessages sm) pid = None
                      then AList.update pid [] (directMessages sm) else directMessages sm);
                stored = (case map_of dm pid of Some ms \<Rightarrow> ms | None \<Rightarrow> [])
            in Inr (sm\<lparr>directMessages := AList.update pid (stored @ [message]) dm,
                       messagesReceived := messagesReceived sm + 1\<rparr>)))"

definition addSharedFile :: "ChatFile \<Rightarrow> StateManager \<Rightarrow> StateManager" where
  "addSharedFile file sm = sm\<lparr>sharedFiles := AList.update (id_file file) file (sharedFiles sm)\<rparr>"

definition getSharedFile :: "StateManager \<Rightarrow> string \<Rightarrow> ChatFile option" where
  "getSharedFile sm fileId = map_of (sharedFiles sm) fileId"

definition addSubscription :: "string \<Rightarrow> StateManager \<Rightarrow> StateManager" where
  "addSubscription topic sm =
     sm\<lparr>subscriptions := (if topic \<in> set (subscriptions sm) then subscriptions sm
                          else subscriptions sm @ [topic])\<rparr>"

definition removeSubscription :: "string \<Rightarrow> StateManager \<Rightarrow> StateManager" where
  "removeSubscription topic sm = sm\<lparr>subscriptions := removeAll topic (subscriptions sm)\<rparr>"

definition incrementMessagesSent :: "StateManager \<Rightarrow> StateManager" where
  "incrementMessagesSent sm = sm\<lparr>messagesSent := messagesSent sm + 1\<rparr>"

definition addBytesReceived :: "nat \<Rightarrow> StateManager \<Rightarrow> StateManager" where
  "addBytesReceived n sm = sm\<lparr>bytesReceived := bytesReceived sm + n\<rparr>"

definition addBytesSent :: "nat \<Rightarrow> StateManager \<Rightarrow> StateManager" where
  "addBytesSent n sm = sm\<lparr>bytesSent := bytesSent sm + n\<rparr>"

record NetworkStats =
  totalConnections :: nat
  activeTopics :: nat
  stat_messagesReceived :: nat
  stat_messagesSent :: nat
  stat_bytesReceived :: nat
  stat_bytesSent :: nat
  uptime :: nat

definition getNetworkStats :: "nat \<Rightarrow> StateManager \<Rightarrow> NetworkStats" where
  "getNetworkStats clock sm =
     \<lparr> totalConnections = length (activeConnections sm),
       activeTopics = length (subscriptions sm),
       stat_messagesReceived = messagesReceived sm,
       stat_messagesSent = messagesSent sm,
       stat_bytesReceived = bytesReceived sm,
       stat_bytesSent = bytesSent sm,
       uptime = (if startTime sm > 0 then clock - startTime sm else 0) \<rparr>"

section \<open>Collaborator answers and results\<close>

text \<open>
  How a stream ends for its reader, after the frames it delivered: closed by the remote
  side, or failed with the exception the stream raises at the reader.
\<close>

datatype stream_end = Closed | Failed exn

text \<open>
  Modelled from the spec: the bidirectional stream and its length-prefixed framing (the
  packages behind \<^verbatim>\<open>dialProtocol\<close>, \<^verbatim>\<open>lp.encode\<close> and \<^verbatim>\<open>lp.decode\<close> are the collaborator's).
  "Every message on the stream is length-prefixed (a byte-length header followed by
  exactly that many payload bytes)": a reader gets the payloads the writer wrote, one
  frame each, in order. A stream is therefore the function from the request frames its
  opener writes to the response frames it reads and the way the stream ends.

  The source calls \<^verbatim>\<open>lp.encode(source)\<close> and \<^verbatim>\<open>lp.decode(source)\<close> without options, so the
  codec's default bound on the payload of a frame applies: \<open>MAX_DATA_LENGTH\<close>, which is
  4 MiB. A longer frame is not yielded to the reader: the codec raises, and the reader's
  pipeline fails with the exception \<open>lp_error\<close> of the collaborators' answers. The request
  frame carries a file identifier, which is taken to be within the bound.
\<close>

type_synonym stream = "bytes list \<Rightarrow> bytes list \<times> stream_end"

definition MAX_DATA_LENGTH :: nat where
  "MAX_DATA_LENGTH = 1024 * 1024 * 4"

record StoredPeer =
  peer_id :: string
  peer_addresses :: "string list"
  peer_protocols :: "string list"

text \<open>
  The answers of the collaborators (the network subsystem, the clock, the identifier
  generator, the file system) during one command. A field \<open>exn option\<close> is a call that
  returns nothing: \<open>Some e\<close> when it raises \<open>e\<close>. A field \<open>exn + 'a\<close> is \<open>Inl e\<close> when the
  call raises. \<^verbatim>\<open>addEventListener\<close>, \<^verbatim>\<open>getMultiaddrs\<close>, \<^verbatim>\<open>getConnections\<close> and the \<^verbatim>\<open>peerId\<close>
  getter are taken not to raise.
\<close>

record env =
  now :: nat
  uuid :: string
  startLibp2p_result :: "exn + Libp2pType"
  start_result :: "exn option"
  stop_result :: "exn option"
  getMultiaddrs_result :: "string list"
  getConnections_result :: "Connection list"
  discovery_events :: "int \<Rightarrow> (string \<times> string list) list"
  multiaddr_result :: "exn option"
  dial_multiaddr_result :: "exn + Connection"
  peerIdFromString_result :: "exn option"
  dial_peer_result :: "exn + Connection"
  hangUp_result :: "exn option"
  getConnections_peer_result :: "Connection list"
  peerStore_has_result :: "exn + bool"
  peerStore_get_result :: "exn + StoredPeer"
  peerStore_all_result :: "exn + StoredPeer list"
  ping_result :: "exn option"
  elapsed :: nat
  publish_result :: "exn + string list"
  directMessage_send_result :: "exn + bool"
  subscribe_result :: "exn option"
  unsubscribe_result :: "exn option"
  getSubscribers_result :: "exn + string list"
  readFile_result :: "exn + bytes"
  base64_decode :: "string \<Rightarrow> bytes"
  handle_result :: "exn option"
  dialProtocol_result :: "exn + stream"
  lp_error :: exn
  registrar_result :: "exn + string list"

text \<open>The calls into the network subsystem that a command makes, in order.\<close>

datatype net_call =
    StartLibp2p NodeConfig
  | NodeStart
  | NodeStop
  | GetMultiaddrs
  | AddEventListener string
  | RemoveEventListener string
  | Dial string
  | HangUp string
  | GetConnections
  | GetConnectionsOf string
  | PeerStoreHas string
  | PeerStoreGet string
  | PeerStoreAll
  | Ping string int
  | Publish string bytes
  | DirectMessageSend string string
  | Subscribe string
  | Unsubscribe string
  | GetSubscribers string
  | PubsubAddEventListener string
  | Handle string
  | DialProtocol string string
  | GetRegistrar

text \<open>
  A tool call: the tool's name with its arguments. An argument the schema requires is
  there; an optional one is an \<open>option\<close>, \<open>None\<close> when the key is absent.
\<close>

datatype tool_call =
    Create_libp2p_node NodeConfig
  | Start_libp2p_node
  | Stop_libp2p_node
  | Get_node_status
  | Discover_peers "int option"
  | Connect_to_peer string
  | Disconnect_from_peer string
  | List_connections
  | Get_peer_info string
  | Ping_peer string "int option"
  | Send_group_message "string option" string
  | Send_direct_message string string
  | Subscribe_to_topic string
  | Unsubscribe_from_topic string
  | Get_message_history "string option" "string option" "int option"
  | Get_topic_subscribers "string option"
  | Share_file "string option" "string option" "string option" "bool option"
  | Request_file string string
  | List_shared_files
  | Announce_file string
  | Get_network_stats
  | Get_protocol_handlers
  | Enable_debug_logging "string option" "string list option"
  | Get_peer_store_info "int option"
  | Other_tool string

fun tool_name :: "tool_call \<Rightarrow> string" where
  "tool_name (Create_libp2p_node _) = ''create_libp2p_node''"
| "tool_name Start_libp2p_node = ''start_libp2p_node''"
| "tool_name Stop_libp2p_node = ''stop_libp2p_node''"
| "tool_name Get_node_status = ''get_node_status''"
| "tool_name (Discover_peers _) = ''discover_peers''"
| "tool_name (Connect_to_peer _) = ''connect_to_peer''"
| "tool_name (Disconnect_from_peer _) = ''disconnect_from_peer''"
| "tool_name List_connections = ''list_connections''"
| "tool_name (Get_peer_info _) = ''get_peer_info''"
| "tool_name (Ping_peer _ _) = ''ping_peer''"
| "tool_name (Send_group_message _ _) = ''send_group_message''"
| "tool_name (Send_direct_message _ _) = ''send_direct_message''"
| "tool_name (Subscribe_to_topic _) = ''subscribe_to_topic''"
| "tool_name (Unsubscribe_from_topic _) = ''unsubscribe_from_topic''"
| "tool_name (Get_message_history _ _ _) = ''get_message_history''"
| "tool_name (Get_topic_subscribers _) = ''get_topic_subscribers''"
| "tool_name (Share_file _ _ _ _) = ''share_file''"
| "tool_name (Request_file _ _) = ''request_file''"
| "tool_name List_shared_files = ''list_shared_files''"
| "tool_name (Announce_file _) = ''announce_file''"
| "tool_name Get_network_stats = ''get_network_stats''"
| "tool_name Get_protocol_handlers = ''get_protocol_handlers''"
| "tool_name (Enable_debug_logging _ _) = ''enable_debug_logging''"
| "tool_name (Get_peer_store_info _) = ''get_peer_store_info''"
| "tool_name (Other_tool name) = name"

text \<open>
  The object a command returns, one constructor for each shape, with the fields in the
  order of the source; \<^verbatim>\<open>success: true\<close>, fixed message texts and \<^verbatim>\<open>timestamp\<close> fields are
  left out.
\<close>

datatype result =
    NodeCreated string "string list" NodeStatus
  | NodeAlreadyRunning string
  | NodeStarted string "string list" NodeStatus
  | NodeStopped
  | NodeStatusReport NodeStatus "string option" "string list" nat "string list option"
  | DiscoveredPeers "(string \<times> string list) list" nat
  | Connected string string "string list"
  | Disconnected string
  | ConnectionList "Connection list" nat
  | PeerInfoResult string "string list" "string list" bool nat
  | Pinged string nat
  | GroupMessageSent string string "string list" nat
  | DirectMessageSent bool string string
  | Subscribed string "string list"
  | Unsubscribed string
  | TopicHistory string "ChatMessage list" nat
  | DirectHistory string "ChatMessage list" nat
  | TopicSubscribers string "string list" nat
  | FileShared string string nat bool "string list"
  | FileReceived string string nat
  | SharedFileList "(string \<times> string \<times> nat \<times> bool) list" nat
  | FileAnnounced string "string list" nat
  | NetworkStatsResult NetworkStats "(string \<times> nat) list" string "string list"
  | ProtocolHandlers "string list" nat
  | DebugLogging string "string list"
  | PeerStoreInfo "StoredPeer list" nat bool

text \<open>What a handler leaves: the value it returns or the exception it raises, the
  state, and the calls it made into the network subsystem.\<close>

type_synonym outcome = "(exn + result) \<times> StateManager \<times> net_call list"

section \<open>The lifecycle commands (src/tools/node-management.ts)\<close>

definition create_libp2p_node :: "NodeConfig \<Rightarrow> env \<Rightarrow> StateManager \<Rightarrow> outcome" where
  "create_libp2p_node config e sm =
     (case libp2pNode sm of
        Some _ \<Rightarrow>
          (Inl (Error ''Libp2p node already exists. Stop the current node first.''), sm, [])
      | None \<Rightarrow>
          (let sm1 = setNodeStatus Starting (now e) sm
           in case startLibp2p_result e of
                Inl err \<Rightarrow>
                  (Inl (Error (''Failed to create libp2p node: '' @ to_text err)),
                   setNodeStatus Stopped (now e) sm1, [StartLibp2p config])
              | Inr libp2p \<Rightarrow>
                  (let sm2 = setLibp2pNode (Some libp2p) sm1;
                       sm3 = setNodeStatus Running (now e) sm2
                   in (Inr (NodeCreated (peerId_node libp2p) (getMultiaddrs_result e) Running),
                       sm3,
                       [StartLibp2p config, AddEventListener ''connection:open'',
                        AddEventListener ''connection:close'', GetMultiaddrs]))))"

definition start_libp2p_node :: "env \<Rightarrow> StateManager \<Rightarrow> outcome" where
  "start_libp2p_node e sm =
     (case libp2pNode sm of
        None \<Rightarrow> (Inl (Error ''No libp2p node exists. Create a node first.''), sm, [])
      | Some libp2p \<Rightarrow>
          if nodeStatus sm = Running then (Inr (NodeAlreadyRunning (peerId_node libp2p)), sm, [])
          else (case start_result e of
                  Some err \<Rightarrow>
                    (Inl (Error (''Failed to start libp2p node: '' @ to_text err)), sm, [NodeStart])
                | None \<Rightarrow>
                    (Inr (NodeStarted (peerId_node libp2p) (getMultiaddrs_result e) Running),
                     setNodeStatus Running (now e) sm, [NodeStart, GetMultiaddrs])))"

definition stop_libp2p_node :: "env \<Rightarrow> StateManager \<Rightarrow> outcome" where
  "stop_libp2p_node e sm =
     (case libp2pNode sm of
        None \<Rightarrow> (Inl (Error ''No libp2p node exists.''), sm, [])
      | Some libp2p \<Rightarrow>
          (let sm1 = setNodeStatus Stopping (now e) sm
           in case stop_result e of
                Some err \<Rightarrow>
                  (Inl (Error (''Failed to stop libp2p node: '' @ to_text err)), sm1, [NodeStop])
              | None \<Rightarrow>
                  (Inr NodeStopped, setLibp2pNode None (setNodeStatus Stopped (now e) sm1),
                   [NodeStop])))"

definition get_node_status :: "env \<Rightarrow> StateManager \<Rightarrow> outcome" where
  "get_node_status e sm =
     (case libp2pNode sm of
        None \<Rightarrow> (Inr (NodeStatusReport Stopped None [] 0 None), sm, [])
      | Some libp2p \<Rightarrow>
          (Inr (NodeStatusReport (nodeStatus sm) (Some (peerId_node libp2p))
                  (getMultiaddrs_result e) (length (activeConnections sm))
                  (Some (subscriptions sm))),
           sm, [GetMultiaddrs]))"

definition handleNodeManagement :: "tool_call \<Rightarrow> env \<Rightarrow> StateManager \<Rightarrow> outcome" where
  "handleNodeManagement call e sm =
     (case call of
        Create_libp2p_node config \<Rightarrow> create_libp2p_node config e sm
      | Start_libp2p_node \<Rightarrow> start_libp2p_node e sm
      | Stop_libp2p_node \<Rightarrow> stop_libp2p_node e sm
      | Get_node_status \<Rightarrow> get_node_status e sm
      | _ \<Rightarrow> (Inl (Error (''Unknown node management tool: '' @ tool_name call)), sm, []))"

section \<open>Messaging (src/tools/messaging.ts)\<close>

text \<open>\<^verbatim>\<open>TextEncoder.encode\<close> and \<^verbatim>\<open>uint8ArrayFromString\<close> give the UTF-8 bytes of a string;
  \<^verbatim>\<open>TextDecoder.decode\<close> and \<^verbatim>\<open>uint8ArrayToString\<close> read them back. The bytes decoded are
  taken to be the UTF-8 text of a string; bytes that are not (which the decoders would
  replace by U+FFFD) are outside the model.\<close>

definition uint8ArrayFromString :: "string \<Rightarrow> bytes" where
  "uint8ArrayFromString s = map of_char s"

definition uint8ArrayToString :: "bytes \<Rightarrow> string" where
  "uint8ArrayToString b = map (\<lambda>w. char_of (unat w)) b"

text \<open>A string argument passes a JavaScript truth test when it is present and not empty.\<close>

definition truthy :: "string option \<Rightarrow> bool" where
  "truthy s = (case s of None \<Rightarrow> False | Some t \<Rightarrow> t \<noteq> [])"

text \<open>\<^verbatim>\<open>Array.prototype.slice(start)\<close> for an integer \<open>start\<close>: a negative start counts from
  the end, and both are clamped to the array.\<close>

definition slice_from :: "int \<Rightarrow> 'a list \<Rightarrow> 'a list" where
  "slice_from start xs =
     (let len = int (length xs);
          k = (if start < 0 then max (len + start) 0 else min start len)
      in drop (nat k) xs)"

definition send_group_message ::
    "Libp2pType \<Rightarrow> string option \<Rightarrow> string \<Rightarrow> env \<Rightarrow> StateManager \<Rightarrow> outcome" where
  "send_group_message libp2p topic_arg message e sm =
     (let topic = (case topic_arg of None \<Rightarrow> CHAT_TOPIC | Some t \<Rightarrow> t);
          messageBytes = uint8ArrayFromString message
      in case publish_result e of
           Inl err \<Rightarrow>
             (Inl (Error (''Failed to send group message: '' @ to_text err)), sm,
              [Publish topic messageBytes])
         | Inr recipients \<Rightarrow>
             (let chatMessage = \<lparr> msgId = uuid e, msg = message, fileObjectUrl = None,
                                  peerId = peerId_node libp2p, read = True, receivedAt = now e \<rparr>;
                  sm1 = addMessage topic chatMessage sm;
                  sm2 = incrementMessagesSent sm1;
                  sm3 = addBytesSent (length messageBytes) sm2
              in (Inr (GroupMessageSent topic message recipients (length recipients)), sm3,
                  [Publish topic messageBytes])))"

definition send_direct_message ::
    "Libp2pType \<Rightarrow> string \<Rightarrow> string \<Rightarrow> env \<Rightarrow> StateManager \<Rightarrow> outcome" where
  "send_direct_message libp2p pid message e sm =
     (case peerIdFromString_result e of
        Some err \<Rightarrow> (Inl (Error (''Failed to send direct message: '' @ to_text err)), sm, [])
      | None \<Rightarrow>
          (case directMessage_send_result e of
             Inl err \<Rightarrow>
               (Inl (Error (''Failed to send direct message: '' @ to_text err)), sm,
                [DirectMessageSend pid message])
           | Inr success \<Rightarrow>
               (let chatMessage = \<lparr> msgId = uuid e, msg = message, fileObjectUrl = None,
                                    peerId = peerId_node libp2p, read = True,
                                    receivedAt = now e \<rparr>
                in if success
                   then (case addDirectMessage pid chatMessage sm of
                           Inl err \<Rightarrow>
                             (Inl (Error (''Failed to send direct message: '' @ to_text err)),
                              sm, [DirectMessageSend pid message])
                         | Inr sm1 \<Rightarrow>
                             (Inr (DirectMessageSent success pid message),
                              addBytesSent (length (uint8ArrayFromString message))
                                (incrementMessagesSent sm1),
                              [DirectMessageSend pid message]))
                   else (Inr (DirectMessageSent success pid message), sm,
                         [DirectMessageSend pid message]))))"

definition subscribe_to_topic :: "string \<Rightarrow> env \<Rightarrow> StateManager \<Rightarrow> outcome" where
  "subscribe_to_topic topic e sm =
     (case subscribe_result e of
        Some err \<Rightarrow>
          (Inl (Error (''Failed to subscribe to topic: '' @ to_text err)), sm, [Subscribe topic])
      | None \<Rightarrow>
          (let sm1 = addSubscription topic sm;
               calls = [Subscribe topic, PubsubAddEventListener ''message'', GetSubscribers topic]
           in case getSubscribers_result e of
                Inl err \<Rightarrow>
                  (Inl (Error (''Failed to subscribe to topic: '' @ to_text err)), sm1, calls)
              | Inr subscribers \<Rightarrow> (Inr (Subscribed topic subscribers), sm1, calls)))"

text \<open>The listener \<^verbatim>\<open>handleMessage\<close> that \<^verbatim>\<open>subscribe_to_topic\<close> registers: what one delivered
  pubsub event does to the state.\<close>

record message_event =
  evt_topic :: string
  evt_data :: bytes
  evt_detail_type :: "string option"
  evt_from :: string

definition handleMessage :: "message_event \<Rightarrow> env \<Rightarrow> StateManager \<Rightarrow> StateManager" where
  "handleMessage evt e sm =
     (if evt_detail_type evt = Some ''signed''
      then (let chatMessage = \<lparr> msgId = uuid e, msg = uint8ArrayToString (evt_data evt),
                                 fileObjectUrl = None, peerId = evt_from evt, read = False,
                                 receivedAt = now e \<rparr>
            in addBytesReceived (length (evt_data evt)) (addMessage (evt_topic evt) chatMessage sm))
      else sm)"

definition unsubscribe_from_topic :: "string \<Rightarrow> env \<Rightarrow> StateManager \<Rightarrow> outcome" where
  "unsubscribe_from_topic topic e sm =
     (case unsubscribe_result e of
        Some err \<Rightarrow>
          (Inl (Error (''Failed to unsubscribe from topic: '' @ to_text err)), sm,
           [Unsubscribe topic])
      | None \<Rightarrow> (Inr (Unsubscribed topic), removeSubscription topic sm, [Unsubscribe topic]))"

text \<open>\<^verbatim>\<open>get_message_history\<close>: in the branch of the peer identifier, \<^verbatim>\<open>slice\<close> is called on
  what \<^verbatim>\<open>getDirectMessages\<close> returned; on an inherited value it is not a function, and
  the call raises a \<^verbatim>\<open>TypeError\<close>.\<close>

definition get_message_history ::
    "string option \<Rightarrow> string option \<Rightarrow> int option \<Rightarrow> StateManager \<Rightarrow> outcome" where
  "get_message_history topic pid limit_arg sm =
     (let limit = (case limit_arg of None \<Rightarrow> 50 | Some l \<Rightarrow> l)
      in case (if truthy topic then topic else None) of
           Some t \<Rightarrow>
             (let messages = slice_from (- limit) (getMessages sm t)
              in (Inr (TopicHistory t messages (length messages)), sm, []))
         | None \<Rightarrow>
             (case (if truthy pid then pid else None) of
                Some p \<Rightarrow>
                  (case getDirectMessages sm p of
                     Messages stored \<Rightarrow>
                       (let messages = slice_from (- limit) stored
                        in (Inr (DirectHistory p messages (length messages)), sm, []))
                   | Inherited_value \<Rightarrow>
                       (Inl (Raised (''TypeError: stateManager.getDirectMessages(...).slice ''
                                     @ ''is not a function'')), sm, []))
              | None \<Rightarrow> (Inl (Error ''Either topic or peerId must be specified''), sm, [])))"

definition get_topic_subscribers :: "string option \<Rightarrow> env \<Rightarrow> StateManager \<Rightarrow> outcome" where
  "get_topic_subscribers topic_arg e sm =
     (let topic = (case topic_arg of None \<Rightarrow> CHAT_TOPIC | Some t \<Rightarrow> t)
      in case getSubscribers_result e of
           Inl err \<Rightarrow>
             (Inl (Error (''Failed to get topic subscribers: '' @ to_text err)), sm,
              [GetSubscribers topic])
         | Inr subscribers \<Rightarrow>
             (Inr (TopicSubscribers topic subscribers (length subscribers)), sm,
              [GetSubscribers topic]))"

definition no_node_error :: exn where
  "no_node_error = Error ''No libp2p node is running. Create and start a node first.''"

definition handleMessaging :: "tool_call \<Rightarrow> env \<Rightarrow> StateManager \<Rightarrow> outcome" where
  "handleMessaging call e sm =
     (case libp2pNode sm of
        None \<Rightarrow> (Inl no_node_error, sm, [])
      | Some libp2p \<Rightarrow>
          (case call of
             Send_group_message topic message \<Rightarrow> send_group_message libp2p topic message e sm
           | Send_direct_message pid message \<Rightarrow> send_direct_message libp2p pid message e sm
           | Subscribe_to_topic topic \<Rightarrow> subscribe_to_topic topic e sm
           | Unsubscribe_from_topic topic \<Rightarrow> unsubscribe_from_topic topic e sm
           | Get_message_history topic pid limit \<Rightarrow> get_message_history topic pid limit sm
           | Get_topic_subscribers topic \<Rightarrow> get_topic_subscribers topic e sm
           | _ \<Rightarrow> (Inl (Error (''Unknown messaging tool: '' @ tool_name call)), sm, [])))"

section \<open>File sharing (src/tools/file-sharing.ts)\<close>

text \<open>
  The handler that \<^verbatim>\<open>share_file\<close> registers for the file-exchange protocol, run on the
  request frames of one inbound stream: each frame is read as a file identifier and
  answered with the stored file's bytes; an identifier with no stored file raises, which
  ends the pipeline. The result is the frames written and the exception raised, if any.
\<close>

fun file_exchange_handler :: "StateManager \<Rightarrow> bytes list \<Rightarrow> bytes list \<times> exn option" where
  "file_exchange_handler sm [] = ([], None)"
| "file_exchange_handler sm (m # ms) =
     (let requestedFileId = uint8ArrayToString m
      in case getSharedFile sm requestedFileId of
           Some requestedFile \<Rightarrow>
             (case file_exchange_handler sm ms of
                (out, r) \<Rightarrow> (body requestedFile # out, r))
         | None \<Rightarrow> ([], Some (Error (''File not found: '' @ requestedFileId))))"

text \<open>
  Modelled from the spec: how the collaborator's stream carries the responder's outcome
  to the peer that opened it. "If found: write exactly one length-prefixed frame
  containing the raw file bytes, then close the stream. If not found: fail the stream
  (abort/reset)": frames written arrive; a handler that ends normally closes the stream;
  a handler that raises makes the stream fail at the reader, with the exception \<open>reset\<close>
  of the stream's own.
\<close>

definition responder_stream :: "exn \<Rightarrow> StateManager \<Rightarrow> stream" where
  "responder_stream reset sm request =
     (case file_exchange_handler sm request of
        (out, None) \<Rightarrow> (out, Closed)
      | (out, Some _) \<Rightarrow> (out, Failed reset))"

text \<open>\<^verbatim>\<open>filePath.split('/').pop() || 'unknown'\<close>\<close>

definition actualFileName :: "string \<Rightarrow> string" where
  "actualFileName filePath =
     (let name = rev (takeWhile (\<lambda>c. c \<noteq> CHR ''/'') (rev filePath))
      in if name = [] then ''unknown'' else name)"

text \<open>The bytes and the name \<^verbatim>\<open>share_file\<close> takes from its arguments: the file at \<^verbatim>\<open>filePath\<close>,
  else the base64 text \<^verbatim>\<open>fileContent\<close> named \<^verbatim>\<open>fileName\<close>, else an error.\<close>

definition file_source ::
    "string option \<Rightarrow> string option \<Rightarrow> string option \<Rightarrow> env \<Rightarrow> exn + (bytes \<times> string)" where
  "file_source filePath fileContent fileName e =
     (if truthy filePath
      then (case readFile_result e of
              Inl err \<Rightarrow> Inl err
            | Inr fileBody \<Rightarrow>
                Inr (fileBody, actualFileName (case filePath of Some p \<Rightarrow> p | None \<Rightarrow> [])))
      else if truthy fileContent \<and> truthy fileName
      then Inr (base64_decode e (case fileContent of Some c \<Rightarrow> c | None \<Rightarrow> []),
                (case fileName of Some n \<Rightarrow> n | None \<Rightarrow> []))
      else Inl (Error ''Either filePath or both fileContent and fileName must be provided''))"

definition share_file ::
    "Libp2pType \<Rightarrow> string option \<Rightarrow> string option \<Rightarrow> string option \<Rightarrow> bool option \<Rightarrow>
     env \<Rightarrow> StateManager \<Rightarrow> outcome" where
  "share_file libp2p filePath fileContent fileName announce_arg e sm =
     (let announce = (case announce_arg of None \<Rightarrow> True | Some a \<Rightarrow> a)
      in case file_source filePath fileContent fileName e of
           Inl err \<Rightarrow> (Inl (Error (''Failed to share file: '' @ to_text err)), sm, [])
         | Inr (fileBody, name) \<Rightarrow>
             (let fileId = uuid e;
                  file = \<lparr> id_file = fileId, body = fileBody, sender = peerId_node libp2p \<rparr>;
                  sm1 = addSharedFile file sm
              in case handle_result e of
                   Some err \<Rightarrow>
                     (Inl (Error (''Failed to share file: '' @ to_text err)), sm1,
                      [Handle FILE_EXCHANGE_PROTOCOL])
                 | None \<Rightarrow>
                     if announce
                     then (case publish_result e of
                             Inl err \<Rightarrow>
                               (Inl (Error (''Failed to share file: '' @ to_text err)), sm1,
                                [Handle FILE_EXCHANGE_PROTOCOL,
                                 Publish CHAT_FILE_TOPIC (uint8ArrayFromString fileId)])
                           | Inr recipients \<Rightarrow>
                               (Inr (FileShared fileId name (length fileBody) announce recipients),
                                sm1,
                                [Handle FILE_EXCHANGE_PROTOCOL,
                                 Publish CHAT_FILE_TOPIC (uint8ArrayFromString fileId)]))
                     else (Inr (FileShared fileId name (length fileBody) announce []), sm1,
                           [Handle FILE_EXCHANGE_PROTOCOL])))"

text \<open>
  \<^verbatim>\<open>request_file\<close>: the request frame is the identifier's bytes; the first response frame,
  if one arrives, is the file. A first frame longer than \<open>MAX_DATA_LENGTH\<close> is not
  yielded: \<^verbatim>\<open>lp.decode\<close> raises, and the pipeline fails with \<open>lp_error\<close>. No frame and a
  closed stream leaves \<^verbatim>\<open>fileData\<close> null; no frame and a failed stream raises the stream's
  exception out of the pipeline.
\<close>

definition request_file :: "string \<Rightarrow> string \<Rightarrow> env \<Rightarrow> StateManager \<Rightarrow> outcome" where
  "request_file pid fileId e sm =
     (case peerIdFromString_result e of
        Some err \<Rightarrow> (Inl (Error (''Failed to request file: '' @ to_text err)), sm, [])
      | None \<Rightarrow>
          (case dialProtocol_result e of
             Inl err \<Rightarrow>
               (Inl (Error (''Failed to request file: '' @ to_text err)), sm,
                [DialProtocol pid FILE_EXCHANGE_PROTOCOL])
           | Inr strm \<Rightarrow>
               (case strm [uint8ArrayFromString fileId] of
                  (fileData # _, _) \<Rightarrow>
                    if MAX_DATA_LENGTH < length fileData
                    then (Inl (Error (''Failed to request file: '' @ to_text (lp_error e))), sm,
                          [DialProtocol pid FILE_EXCHANGE_PROTOCOL])
                    else (let file = \<lparr> id_file = fileId, body = fileData, sender = pid \<rparr>
                          in (Inr (FileReceived fileId pid (length fileData)),
                              addSharedFile file sm,
                              [DialProtocol pid FILE_EXCHANGE_PROTOCOL]))
                | ([], Closed) \<Rightarrow>
                    (Inl (Error (''Failed to request file: ''
                                 @ to_text (Error ''No file data received''))),
                     sm, [DialProtocol pid FILE_EXCHANGE_PROTOCOL])
                | ([], Failed err) \<Rightarrow>
                    (Inl (Error (''Failed to request file: '' @ to_text err)), sm,
                     [DialProtocol pid FILE_EXCHANGE_PROTOCOL]))))"

definition list_shared_files :: "Libp2pType \<Rightarrow> StateManager \<Rightarrow> outcome" where
  "list_shared_files libp2p sm =
     (let files = map (\<lambda>(k, file). (id_file file, sender file, length (body file),
                                     sender file = peerId_node libp2p)) (sharedFiles sm)
      in (Inr (SharedFileList files (length files)), sm, []))"

definition announce_file :: "string \<Rightarrow> env \<Rightarrow> StateManager \<Rightarrow> outcome" where
  "announce_file fileId e sm =
     (case getSharedFile sm fileId of
        None \<Rightarrow>
          (Inl (Error (''Failed to announce file: ''
                       @ to_text (Error (''File not found: '' @ fileId)))), sm, [])
      | Some file \<Rightarrow>
          (case publish_result e of
             Inl err \<Rightarrow>
               (Inl (Error (''Failed to announce file: '' @ to_text err)), sm,
                [Publish CHAT_FILE_TOPIC (uint8ArrayFromString fileId)])
           | Inr recipients \<Rightarrow>
               (Inr (FileAnnounced fileId recipients (length recipients)), sm,
                [Publish CHAT_FILE_TOPIC (uint8ArrayFromString fileId)])))"

definition handleFileSharing :: "tool_call \<Rightarrow> env \<Rightarrow> StateManager \<Rightarrow> outcome" where
  "handleFileSharing call e sm =
     (case libp2pNode sm of
        None \<Rightarrow> (Inl no_node_error, sm, [])
      | Some libp2p \<Rightarrow>
          (case call of
             Share_file filePath fileContent fileName announce \<Rightarrow>
               share_file libp2p filePath fileContent fileName announce e sm
           | Request_file pid fileId \<Rightarrow> request_file pid fileId e sm
           | List_shared_files \<Rightarrow> list_shared_files libp2p sm
           | Announce_file fileId \<Rightarrow> announce_file fileId e sm
           | _ \<Rightarrow> (Inl (Error (''Unknown file sharing tool: '' @ tool_name call)), sm, [])))"

section \<open>Peer management (src/tools/peer-management.ts)\<close>

text \<open>\<^verbatim>\<open>discover_peers\<close> returns when its timer fires, with the discovery events that fired
  before: \<open>discovery_events\<close> of the collaborators' answers, for the timeout in
  milliseconds (\<^verbatim>\<open>args.timeout || 10000\<close>). Time itself is not modelled.\<close>

definition discover_peers :: "int option \<Rightarrow> env \<Rightarrow> StateManager \<Rightarrow> outcome" where
  "discover_peers timeout_arg e sm =
     (let timeout = (case timeout_arg of None \<Rightarrow> 10000 | Some t \<Rightarrow> if t = 0 then 10000 else t);
          discoveredPeers = discovery_events e timeout
      in (Inr (DiscoveredPeers discoveredPeers (length discoveredPeers)), sm,
          [AddEventListener ''peer:discovery'', RemoveEventListener ''peer:discovery'']))"

definition connected :: "Connection \<Rightarrow> net_call list \<Rightarrow> env \<Rightarrow> StateManager \<Rightarrow> outcome" where
  "connected connection calls e sm =
     (Inr (Connected (remotePeer connection) (remoteAddr connection) (protoNames connection)),
      updateConnections (getConnections_result e) sm, calls @ [GetConnections])"

text \<open>\<^verbatim>\<open>connect_to_peer\<close>: the target is dialled as a multiaddr; when parsing it or that dial
  raises, the target is parsed as a peer identifier and dialled again.\<close>

definition dial_as_peer :: "string \<Rightarrow> net_call list \<Rightarrow> env \<Rightarrow> StateManager \<Rightarrow> outcome" where
  "dial_as_peer target calls e sm =
     (case peerIdFromString_result e of
        Some err \<Rightarrow> (Inl (Error (''Failed to connect to peer: '' @ to_text err)), sm, calls)
      | None \<Rightarrow>
          (case dial_peer_result e of
             Inl err \<Rightarrow>
               (Inl (Error (''Failed to connect to peer: '' @ to_text err)), sm,
                calls @ [Dial target])
           | Inr connection \<Rightarrow> connected connection (calls @ [Dial target]) e sm))"

definition connect_to_peer :: "string \<Rightarrow> env \<Rightarrow> StateManager \<Rightarrow> outcome" where
  "connect_to_peer target e sm =
     (case multiaddr_result e of
        Some _ \<Rightarrow> dial_as_peer target [] e sm
      | None \<Rightarrow>
          (case dial_multiaddr_result e of
             Inl _ \<Rightarrow> dial_as_peer target [Dial target] e sm
           | Inr connection \<Rightarrow> connected connection [Dial target] e sm))"

definition disconnect_from_peer :: "string \<Rightarrow> env \<Rightarrow> StateManager \<Rightarrow> outcome" where
  "disconnect_from_peer pid e sm =
     (case peerIdFromString_result e of
        Some err \<Rightarrow> (Inl (Error (''Failed to disconnect from peer: '' @ to_text err)), sm, [])
      | None \<Rightarrow>
          (case hangUp_result e of
             Some err \<Rightarrow>
               (Inl (Error (''Failed to disconnect from peer: '' @ to_text err)), sm, [HangUp pid])
           | None \<Rightarrow>
               (Inr (Disconnected pid), updateConnections (getConnections_result e) sm,
                [HangUp pid, GetConnections])))"

definition list_connections :: "env \<Rightarrow> StateManager \<Rightarrow> outcome" where
  "list_connections e sm =
     (let connections = getConnections_result e
      in (Inr (ConnectionList connections (length connections)), sm, [GetConnections]))"

text \<open>\<^verbatim>\<open>[...new Set(xs)]\<close>: the first occurrence of each element, in order.\<close>

definition unique :: "'a list \<Rightarrow> 'a list" where
  "unique xs = rev (remdups (rev xs))"

definition get_peer_info :: "string \<Rightarrow> env \<Rightarrow> StateManager \<Rightarrow> outcome" where
  "get_peer_info pid e sm =
     (case peerIdFromString_result e of
        Some err \<Rightarrow> (Inl (Error (''Failed to get peer info: '' @ to_text err)), sm, [])
      | None \<Rightarrow>
          (let connections = getConnections_peer_result e;
               known = (case peerStore_has_result e of Inr b \<Rightarrow> b | Inl _ \<Rightarrow> False);
               storedPeer = (if known
                             then (case peerStore_get_result e of
                                     Inr sp \<Rightarrow> Some sp | Inl _ \<Rightarrow> None)
                             else None);
               stored_multiaddrs = (case storedPeer of Some sp \<Rightarrow> peer_addresses sp | None \<Rightarrow> []);
               protocols = (case storedPeer of Some sp \<Rightarrow> peer_protocols sp | None \<Rightarrow> []);
               multiaddrs = (if length connections > 0
                             then unique (stored_multiaddrs @ map remoteAddr connections)
                             else stored_multiaddrs)
           in (Inr (PeerInfoResult pid multiaddrs protocols (length connections > 0)
                      (length connections)),
               sm,
               [GetConnectionsOf pid, PeerStoreHas pid] @ (if known then [PeerStoreGet pid] else []))))"

definition ping_peer :: "Libp2pType \<Rightarrow> string \<Rightarrow> int option \<Rightarrow> env \<Rightarrow> StateManager \<Rightarrow> outcome" where
  "ping_peer libp2p pid timeout_arg e sm =
     (let timeout = (case timeout_arg of None \<Rightarrow> 5000 | Some t \<Rightarrow> t)
      in case peerIdFromString_result e of
           Some err \<Rightarrow> (Inl (Error (''Failed to ping peer: '' @ to_text err)), sm, [])
         | None \<Rightarrow>
             if \<not> services_ping libp2p
             then (Inl (Error (''Failed to ping peer: ''
                               @ to_text (Error ''Ping service not available''))), sm, [])
             else (case ping_result e of
                     Some err \<Rightarrow>
                       (Inl (Error (''Failed to ping peer: '' @ to_text err)), sm,
                        [Ping pid timeout])
                   | None \<Rightarrow> (Inr (Pinged pid (elapsed e)), sm, [Ping pid timeout])))"

definition handlePeerManagement :: "tool_call \<Rightarrow> env \<Rightarrow> StateManager \<Rightarrow> outcome" where
  "handlePeerManagement call e sm =
     (case libp2pNode sm of
        None \<Rightarrow> (Inl no_node_error, sm, [])
      | Some libp2p \<Rightarrow>
          (case call of
             Discover_peers timeout \<Rightarrow> discover_peers timeout e sm
           | Connect_to_peer target \<Rightarrow> connect_to_peer target e sm
           | Disconnect_from_peer pid \<Rightarrow> disconnect_from_peer pid e sm
           | List_connections \<Rightarrow> list_connections e sm
           | Get_peer_info pid \<Rightarrow> get_peer_info pid e sm
           | Ping_peer pid timeout \<Rightarrow> ping_peer libp2p pid timeout e sm
           | _ \<Rightarrow> (Inl (Error (''Unknown peer management tool: '' @ tool_name call)), sm, [])))"

section \<open>Monitoring (src/tools/monitoring.ts)\<close>

text \<open>\<^verbatim>\<open>protocolStats\<close> is a plain object keyed by the protocol names of a multiaddr, which
  are taken not to be names inherited from \<^verbatim>\<open>Object.prototype\<close>.\<close>

definition protocolDistribution :: "Connection list \<Rightarrow> (string \<times> nat) list" where
  "protocolDistribution connections =
     foldl (\<lambda>protocolStats proto.
              AList.update proto
                ((case map_of protocolStats proto of Some n \<Rightarrow> n | None \<Rightarrow> 0) + 1) protocolStats)
       [] (concat (map protoNames connections))"

definition get_network_stats :: "Libp2pType \<Rightarrow> env \<Rightarrow> StateManager \<Rightarrow> outcome" where
  "get_network_stats libp2p e sm =
     (Inr (NetworkStatsResult (getNetworkStats (now e) sm)
             (protocolDistribution (getConnections_result e)) (peerId_node libp2p)
             (getMultiaddrs_result e)),
      sm, [GetConnections, GetMultiaddrs])"

definition get_protocol_handlers :: "env \<Rightarrow> StateManager \<Rightarrow> outcome" where
  "get_protocol_handlers e sm =
     (case registrar_result e of
        Inl err \<Rightarrow>
          (Inl (Error (''Failed to get protocol handlers: '' @ to_text err)), sm, [GetRegistrar])
      | Inr protocols \<Rightarrow> (Inr (ProtocolHandlers protocols (length protocols)), sm, [GetRegistrar]))"

definition enable_debug_logging ::
    "string option \<Rightarrow> string list option \<Rightarrow> StateManager \<Rightarrow> outcome" where
  "enable_debug_logging level components sm =
     (Inr (DebugLogging (case level of None \<Rightarrow> ''info'' | Some l \<Rightarrow> l)
             (case components of None \<Rightarrow> [''all''] | Some cs \<Rightarrow> cs)),
      sm, [])"

text \<open>\<^verbatim>\<open>get_peer_store_info\<close>: the loop leaves at the first peer once \<^verbatim>\<open>count >= limit\<close>.\<close>

definition get_peer_store_info :: "int option \<Rightarrow> env \<Rightarrow> StateManager \<Rightarrow> outcome" where
  "get_peer_store_info limit_arg e sm =
     (let limit = (case limit_arg of None \<Rightarrow> 50 | Some l \<Rightarrow> l)
      in case peerStore_all_result e of
           Inl err \<Rightarrow>
             (Inl (Error (''Failed to get peer store info: '' @ to_text err)), sm, [PeerStoreAll])
         | Inr peers \<Rightarrow>
             (let allPeers = take (nat limit) peers
              in (Inr (PeerStoreInfo allPeers (length allPeers) (int (length allPeers) = limit)),
                  sm, [PeerStoreAll])))"

definition handleMonitoring :: "tool_call \<Rightarrow> env \<Rightarrow> StateManager \<Rightarrow> outcome" where
  "handleMonitoring call e sm =
     (case libp2pNode sm of
        None \<Rightarrow> (Inl no_node_error, sm, [])
      | Some libp2p \<Rightarrow>
          (case call of
             Get_network_stats \<Rightarrow> get_network_stats libp2p e sm
           | Get_protocol_handlers \<Rightarrow> get_protocol_handlers e sm
           | Enable_debug_logging level components \<Rightarrow> enable_debug_logging level components sm
           | Get_peer_store_info limit \<Rightarrow> get_peer_store_info limit e sm
           | _ \<Rightarrow> (Inl (Error (''Unknown monitoring tool: '' @ tool_name call)), sm, [])))"

section \<open>Routing of tool calls (src/index.ts)\<close>

definition node_management_tools :: "string list" where
  "node_management_tools =
     [''create_libp2p_node'', ''start_libp2p_node'', ''stop_libp2p_node'', ''get_node_status'']"

definition peer_management_tools :: "string list" where
  "peer_management_tools =
     [''discover_peers'', ''connect_to_peer'', ''disconnect_from_peer'', ''list_connections'',
      ''get_peer_info'', ''ping_peer'']"

definition messaging_tools :: "string list" where
  "messaging_tools =
     [''send_group_message'', ''send_direct_message'', ''subscribe_to_topic'',
      ''unsubscribe_from_topic'', ''get_message_history'', ''get_topic_subscribers'']"

definition file_sharing_tools :: "string list" where
  "file_sharing_tools = [''share_file'', ''request_file'', ''list_shared_files'', ''announce_file'']"

definition monitoring_tools :: "string list" where
  "monitoring_tools =
     [''get_network_stats'', ''get_protocol_handlers'', ''enable_debug_logging'',
      ''get_peer_store_info'']"

text \<open>The request handler of \<^verbatim>\<open>CallToolRequestSchema\<close>, up to the handler's outcome (the
  caller then gets the result as JSON text, or the exception's message as an error).\<close>

definition callTool :: "tool_call \<Rightarrow> env \<Rightarrow> StateManager \<Rightarrow> outcome" where
  "callTool call e sm =
     (let name = tool_name call
      in if name \<in> set node_management_tools then handleNodeManagement call e sm
         else if name \<in> set peer_management_tools then handlePeerManagement call e sm
         else if name \<in> set messaging_tools then handleMessaging call e sm
         else if name \<in> set file_sharing_tools then handleFileSharing call e sm
         else if name \<in> set monitoring_tools then handleMonitoring call e sm
         else (Inl (Error (''Unknown tool: '' @ name)), sm, []))"

section \<open>The network event adapter (listeners of src/tools/node-management.ts)\<close>

text \<open>
  A connection event, with the list \<^verbatim>\<open>libp2p.getConnections()\<close> returns when its listener
  runs. Both listeners that \<^verbatim>\<open>create_libp2p_node\<close> installs do the same.
\<close>

datatype connection_event = ConnectionOpen "Connection list" | ConnectionClose "Connection list"

fun reported :: "connection_event \<Rightarrow> Connection list" where
  "reported (ConnectionOpen connections) = connections"
| "reported (ConnectionClose connections) = connections"

fun connection_listener :: "connection_event \<Rightarrow> StateManager \<Rightarrow> StateManager" where
  "connection_listener (ConnectionOpen connections) sm = updateConnections connections sm"
| "connection_listener (ConnectionClose connections) sm = updateConnections connections sm"

definition process_events :: "connection_event list \<Rightarrow> StateManager \<Rightarrow> StateManager" where
  "process_events events sm = foldl (\<lambda>s ev. connection_listener ev s) sm events"

text \<open>Pubsub events delivered to the listener \<^verbatim>\<open>handleMessage\<close> one after the other, each
  with the clock and identifier of its own delivery.\<close>

definition deliver :: "(message_event \<times> env) list \<Rightarrow> StateManager \<Rightarrow> StateManager" where
  "deliver events sm = foldl (\<lambda>s (evt, e). handleMessage evt e s) sm events"

section \<open>Concrete nodes, answers and states\<close>

definition example_node :: Libp2pType where
  "example_node = \<lparr> peerId_node = ''12D3KooWResponder'', services_ping = True \<rparr>"

definition other_node :: Libp2pType where
  "other_node = \<lparr> peerId_node = ''12D3KooWInitiator'', services_ping = True \<rparr>"

definition default_config :: NodeConfig where
  "default_config = \<lparr> transports = None, enableRelay = None, bootstrapPeers = None,
     listenAddresses = None \<rparr>"

text \<open>Collaborators that answer every call without raising, with nothing to report; no
  peer can be dialled.\<close>

definition quiet_env :: env where
  "quiet_env = \<lparr> now = 1000, uuid = ''0b0e9a5c'', startLibp2p_result = Inr example_node,
     start_result = None, stop_result = None, getMultiaddrs_result = [],
     getConnections_result = [], discovery_events = (\<lambda>_. []), multiaddr_result = None,
     dial_multiaddr_result = Inl (Raised ''no route''), peerIdFromString_result = None,
     dial_peer_result = Inl (Raised ''no route''), hangUp_result = None,
     getConnections_peer_result = [], peerStore_has_result = Inr False,
     peerStore_get_result = Inl (Raised ''not found''), peerStore_all_result = Inr [],
     ping_result = None, elapsed = 0, publish_result = Inr [],
     directMessage_send_result = Inr True, subscribe_result = None, unsubscribe_result = None,
     getSubscribers_result = Inr [], readFile_result = Inr [1, 2, 3],
     base64_decode = (\<lambda>_. []), handle_result = None,
     dialProtocol_result = Inl (Raised ''protocol not supported''),
     lp_error = Raised ''InvalidDataLengthError: Message length too long'',
     registrar_result = Inr [] \<rparr>"

definition running_state :: StateManager where
  "running_state = initial\<lparr>libp2pNode := Some example_node, nodeStatus := Running,
     startTime := 1000\<rparr>"

definition stopping_state :: StateManager where
  "stopping_state = initial\<lparr>libp2pNode := Some example_node, nodeStatus := Stopping,
     startTime := 1000\<rparr>"

definition initiator_state :: StateManager where
  "initiator_state = initial\<lparr>libp2pNode := Some other_node, nodeStatus := Running,
     startTime := 1000\<rparr>"

definition conn_a :: Connection where
  "conn_a = \<lparr> id_conn = ''c1'', remotePeer = ''12D3KooWA'', remoteAddr = ''/ip4/10.0.0.1/tcp/1'',
     protoNames = [''ip4'', ''tcp''] \<rparr>"

definition conn_b :: Connection where
  "conn_b = \<lparr> id_conn = ''c2'', remotePeer = ''12D3KooWB'', remoteAddr = ''/ip4/10.0.0.2/tcp/1'',
     protoNames = [''ip4'', ''tcp''] \<rparr>"

definition message_of :: "string \<Rightarrow> ChatMessage" where
  "message_of text = \<lparr> msgId = ''0b0e9a5c'', msg = text, fileObjectUrl = None,
     peerId = ''12D3KooWResponder'', read = True, receivedAt = 1000 \<rparr>"

text \<open>States and answers used by the examples below.\<close>

definition news_state :: StateManager where
  "news_state = running_state\<lparr>messageHistory :=
     [(''news'', [message_of ''a'', message_of ''b'', message_of ''c''])],
     messagesReceived := 3\<rparr>"

definition sent_state :: StateManager where
  "sent_state = running_state\<lparr>messageHistory := [(''news'', [message_of ''hi''])],
     messagesReceived := 1, messagesSent := 1, bytesSent := 2\<rparr>"

definition empty_topic_state :: StateManager where
  "empty_topic_state = running_state\<lparr>messageHistory := [([], [message_of ''hi''])],
     messagesReceived := 1, messagesSent := 1, bytesSent := 2\<rparr>"

definition shared_state :: StateManager where
  "shared_state = running_state\<lparr>sharedFiles :=
     [(''0b0e9a5c'', \<lparr> id_file = ''0b0e9a5c'', body = [1, 2, 3],
                       sender = ''12D3KooWResponder'' \<rparr>)]\<rparr>"

text \<open>Collaborators whose dial reaches the file-exchange handler of a responder in the
  given state; the stream raises "stream reset" at the reader when the responder fails it.\<close>

definition dial_env :: "StateManager \<Rightarrow> env" where
  "dial_env responder =
     quiet_env\<lparr>dialProtocol_result := Inr (responder_stream (Raised ''stream reset'') responder)\<rparr>"

text \<open>A file one byte longer than the codec's bound, the collaborators that read it from
  disk, and the responder's state once it is shared.\<close>

definition big_file :: bytes where
  "big_file = replicate 4194305 0"

definition big_env :: env where
  "big_env = quiet_env\<lparr>readFile_result := Inr big_file\<rparr>"

definition big_shared_state :: StateManager where
  "big_shared_state = running_state\<lparr>sharedFiles :=
     [(''0b0e9a5c'', \<lparr> id_file = ''0b0e9a5c'', body = big_file,
                       sender = ''12D3KooWResponder'' \<rparr>)]\<rparr>"

definition chat_state :: StateManager where
  "chat_state = news_state\<lparr>directMessages := [(''12D3KooWA'', [message_of ''yo''])]\<rparr>"

section \<open>Facts about the registry store\<close>

lemma byte_of_char: "char_of (unat (of_char c :: 8 word)) = c"
proof -
  have "(of_char c :: 8 word) = of_nat (of_char c)"
    by (simp only: of_nat_of_char)
  then have "unat (of_char c :: 8 word) = of_char c mod 256"
    by (simp add: unat_of_nat)
  then show ?thesis
    by simp
qed

lemma uint8Array_round_trip [simp]: "uint8ArrayToString (uint8ArrayFromString s) = s"
  by (simp add: uint8ArrayToString_def uint8ArrayFromString_def comp_def byte_of_char map_idI)

lemma update_fresh_key: "k \<notin> fst ` set al \<Longrightarrow> AList.update k v al = al @ [(k, v)]"
  by (induction al) auto

lemma set_connections_distinct:
  "distinct (map fst al @ map id_conn cs) \<Longrightarrow>
   foldl (\<lambda>m conn. AList.update (id_conn conn) conn m) al cs = al @ map (\<lambda>c. (id_conn c, c)) cs"
proof (induction cs arbitrary: al)
  case Nil
  then show ?case by simp
next
  case (Cons c cs)
  have fresh: "id_conn c \<notin> fst ` set al"
    using Cons.prems by auto
  have "distinct (map fst (al @ [(id_conn c, c)]) @ map id_conn cs)"
    using Cons.prems by auto
  from Cons.IH[OF this] show ?case
    by (simp add: update_fresh_key[OF fresh])
qed

lemma find_in_append:
  "find P (xs @ ys) = (case find P xs of Some x \<Rightarrow> Some x | None \<Rightarrow> find P ys)"
  by (induction xs) auto

lemma lookup_set_connections:
  "map_of (foldl (\<lambda>m conn. AList.update (id_conn conn) conn m) al cs) k
   = (case find (\<lambda>c. id_conn c = k) (rev cs) of Some c \<Rightarrow> Some c | None \<Rightarrow> map_of al k)"
proof (induction cs arbitrary: al)
  case Nil
  then show ?case by simp
next
  case (Cons c cs)
  show ?case
    by (simp add: Cons.IH update_conv' find_in_append split: option.splits)
qed

lemma process_events_is_last_report:
  "events \<noteq> [] \<Longrightarrow> process_events events sm = updateConnections (reported (last events)) sm"
proof (induction events arbitrary: sm rule: rev_induct)
  case Nil
  then show ?case by simp
next
  case (snoc ev evs)
  show ?case
  proof (cases evs)
    case Nil
    then show ?thesis
      by (cases ev) (simp_all add: process_events_def)
  next
    case (Cons a rest)
    then have "process_events evs sm = updateConnections (reported (last evs)) sm"
      using snoc.IH by simp
    then show ?thesis
      by (cases ev) (simp_all add: process_events_def updateConnections_def)
  qed
qed

lemma updateConnections_twice:
  "updateConnections cs (updateConnections cs sm) = updateConnections cs sm"
  by (simp add: updateConnections_def)

lemma getMessages_addMessage: "getMessages (addMessage t m sm) t = getMessages sm t @ [m]"
  by (simp add: getMessages_def addMessage_def Let_def update_conv' split: option.splits)

lemma getMessages_addMessages:
  "getMessages (foldl (\<lambda>s m. addMessage t m s) sm ms) t = getMessages sm t @ ms"
  by (induction ms arbitrary: sm) (simp_all add: getMessages_addMessage)

lemma slice_from_negative: "0 < k \<Longrightarrow> slice_from (- k) xs = drop (length xs - nat k) xs"
  by (auto simp: slice_from_def Let_def max_def intro: arg_cong2[where f = drop])

lemma guard_peer_management:
  "libp2pNode sm = None \<Longrightarrow> handlePeerManagement call e sm = (Inl no_node_error, sm, [])"
  by (simp add: handlePeerManagement_def)

lemma guard_messaging:
  "libp2pNode sm = None \<Longrightarrow> handleMessaging call e sm = (Inl no_node_error, sm, [])"
  by (simp add: handleMessaging_def)

lemma guard_file_sharing:
  "libp2pNode sm = None \<Longrightarrow> handleFileSharing call e sm = (Inl no_node_error, sm, [])"
  by (simp add: handleFileSharing_def)

lemma guard_monitoring:
  "libp2pNode sm = None \<Longrightarrow> handleMonitoring call e sm = (Inl no_node_error, sm, [])"
  by (simp add: handleMonitoring_def)

lemma guard_routed:
  assumes "libp2pNode sm = None"
    and "tool_name call \<in> set (peer_management_tools @ messaging_tools @ file_sharing_tools
                                 @ monitoring_tools)"
  shows "callTool call e sm = (Inl no_node_error, sm, [])"
proof -
  have "tool_name call \<notin> set node_management_tools"
    using assms(2)
    by (auto simp: node_management_tools_def peer_management_tools_def messaging_tools_def
        file_sharing_tools_def monitoring_tools_def)
  then show ?thesis
    using assms guard_peer_management[OF assms(1)] guard_messaging[OF assms(1)]
      guard_file_sharing[OF assms(1)] guard_monitoring[OF assms(1)]
    by (auto simp: callTool_def Let_def)
qed

lemma create_success_stores_node:
  assumes "handleNodeManagement (Create_libp2p_node config) e sm = (Inr r, sm', calls)"
  shows "libp2pNode sm' \<noteq> None"
  using assms
  by (auto simp: handleNodeManagement_def create_libp2p_node_def Let_def setNodeStatus_def
      setLibp2pNode_def split: option.splits sum.splits)

lemma getMessages_handleMessage:
  "evt_detail_type evt = Some ''signed'' \<Longrightarrow> evt_topic evt = t \<Longrightarrow>
   map msg (getMessages (handleMessage evt e sm) t)
     = map msg (getMessages sm t) @ [uint8ArrayToString (evt_data evt)]"
  by (simp add: handleMessage_def Let_def addBytesReceived_def getMessages_def addMessage_def
      update_conv' split: option.splits)

lemma getMessages_deliver:
  "(\<forall>d \<in> set events. evt_detail_type (fst d) = Some ''signed'' \<and> evt_topic (fst d) = t) \<Longrightarrow>
   map msg (getMessages (deliver events sm) t)
     = map msg (getMessages sm t) @ map (\<lambda>d. uint8ArrayToString (evt_data (fst d))) events"
proof (induction events arbitrary: sm)
  case Nil
  then show ?case
    by (simp add: deliver_def)
next
  case (Cons d ds)
  obtain evt e where d: "d = (evt, e)"
    by (cases d)
  have step: "map msg (getMessages (handleMessage evt e sm) t)
     = map msg (getMessages sm t) @ [uint8ArrayToString (evt_data evt)]"
    using Cons.prems d by (simp add: getMessages_handleMessage)
  have rest: "\<forall>d \<in> set ds. evt_detail_type (fst d) = Some ''signed'' \<and> evt_topic (fst d) = t"
    using Cons.prems by simp
  have "deliver (d # ds) sm = deliver ds (handleMessage evt e sm)"
    by (simp add: deliver_def d)
  then show ?case
    using Cons.IH[OF rest, of "handleMessage evt e sm"] step d by simp
qed

lemma share_stores_file:
  assumes "libp2pNode responder = Some r"
    and "file_source filePath fileContent fileName e = Inr (fileBody, name)"
  shows "getSharedFile
           (fst (snd (handleFileSharing (Share_file filePath fileContent fileName announce) e
                        responder)))
           (uuid e)
         = Some \<lparr> id_file = uuid e, body = fileBody, sender = peerId_node r \<rparr>"
  using assms
  by (auto simp: handleFileSharing_def share_file_def Let_def addSharedFile_def getSharedFile_def
      update_conv' split: option.splits sum.splits)

lemma handler_serves_stored_file:
  "getSharedFile sm fileId = Some file \<Longrightarrow>
   file_exchange_handler sm [uint8ArrayFromString fileId] = ([body file], None)"
  by simp

lemma request_of_stored_file:
  assumes "libp2pNode initiator = Some me"
    and "peerIdFromString_result e = None"
    and "dialProtocol_result e = Inr (responder_stream reset responder)"
    and "getSharedFile responder fileId = Some file"
    and "length (body file) \<le> MAX_DATA_LENGTH"
  shows "handleFileSharing (Request_file pid fileId) e initiator
     = (Inr (FileReceived fileId pid (length (body file))),
        addSharedFile \<lparr> id_file = fileId, body = body file, sender = pid \<rparr> initiator,
        [DialProtocol pid FILE_EXCHANGE_PROTOCOL])"
  using assms
  by (simp add: handleFileSharing_def request_file_def responder_stream_def
      handler_serves_stored_file del: file_exchange_handler.simps)

lemma request_of_long_file:
  assumes "libp2pNode initiator = Some me"
    and "peerIdFromString_result e = None"
    and "dialProtocol_result e = Inr (responder_stream reset responder)"
    and "getSharedFile responder fileId = Some file"
    and "MAX_DATA_LENGTH < length (body file)"
  shows "handleFileSharing (Request_file pid fileId) e initiator
     = (Inl (Error (''Failed to request file: '' @ to_text (lp_error e))), initiator,
        [DialProtocol pid FILE_EXCHANGE_PROTOCOL])"
  using assms
  by (simp add: handleFileSharing_def request_file_def responder_stream_def
      handler_serves_stored_file del: file_exchange_handler.simps)

lemma length_big_file: "length big_file = 4194305"
  by (simp add: big_file_def)

lemmas peer_management_commands =
  discover_peers_def connect_to_peer_def dial_as_peer_def connected_def disconnect_from_peer_def
  list_connections_def get_peer_info_def ping_peer_def updateConnections_def

lemmas messaging_commands =
  send_group_message_def send_direct_message_def subscribe_to_topic_def
  unsubscribe_from_topic_def get_message_history_def get_topic_subscribers_def addMessage_def
  addDirectMessage_def getDirectMessages_def getMessages_def incrementMessagesSent_def
  addBytesSent_def addSubscription_def removeSubscription_def

lemmas file_sharing_commands =
  share_file_def request_file_def list_shared_files_def announce_file_def addSharedFile_def
  getSharedFile_def

lemmas monitoring_commands =
  get_network_stats_def get_protocol_handlers_def enable_debug_logging_def
  get_peer_store_info_def getNetworkStats_def

lemma peer_management_ignores_phase:
  "handlePeerManagement call e (sm\<lparr>nodeStatus := phase\<rparr>)
   = (case handlePeerManagement call e sm of
        (r, sm', calls) \<Rightarrow> (r, sm'\<lparr>nodeStatus := phase\<rparr>, calls))"
  by (cases call)
    (auto simp: handlePeerManagement_def peer_management_commands Let_def
      split: option.splits sum.splits)

lemma messaging_ignores_phase:
  "handleMessaging call e (sm\<lparr>nodeStatus := phase\<rparr>)
   = (case handleMessaging call e sm of
        (r, sm', calls) \<Rightarrow> (r, sm'\<lparr>nodeStatus := phase\<rparr>, calls))"
  by (cases call)
    (auto simp: handleMessaging_def messaging_commands Let_def
      split: option.splits sum.splits direct_value.splits)

lemma file_sharing_ignores_phase:
  "handleFileSharing call e (sm\<lparr>nodeStatus := phase\<rparr>)
   = (case handleFileSharing call e sm of
        (r, sm', calls) \<Rightarrow> (r, sm'\<lparr>nodeStatus := phase\<rparr>, calls))"
  by (cases call)
    (auto simp: handleFileSharing_def file_sharing_commands Let_def
      split: option.splits sum.splits prod.splits list.splits stream_end.splits)

lemma monitoring_ignores_phase:
  "handleMonitoring call e (sm\<lparr>nodeStatus := phase\<rparr>)
   = (case handleMonitoring call e sm of
        (r, sm', calls) \<Rightarrow> (r, sm'\<lparr>nodeStatus := phase\<rparr>, calls))"
  by (cases call)
    (auto simp: handleMonitoring_def monitoring_commands Let_def
      split: option.splits sum.splits)

lemma peer_management_runs_with_handle:
  "libp2pNode sm = Some node \<Longrightarrow> fst (handlePeerManagement call e sm) \<noteq> Inl no_node_error"
  by (cases call)
    (auto simp: handlePeerManagement_def peer_management_commands no_node_error_def Let_def
      split: option.splits sum.splits)

lemma messaging_runs_with_handle:
  "libp2pNode sm = Some node \<Longrightarrow> fst (handleMessaging call e sm) \<noteq> Inl no_node_error"
  by (cases call)
    (auto simp: handleMessaging_def messaging_commands no_node_error_def Let_def
      split: option.splits sum.splits direct_value.splits)

lemma file_sharing_runs_with_handle:
  "libp2pNode sm = Some node \<Longrightarrow> fst (handleFileSharing call e sm) \<noteq> Inl no_node_error"
  by (cases call)
    (auto simp: handleFileSharing_def file_sharing_commands no_node_error_def Let_def
      split: option.splits sum.splits prod.splits list.splits stream_end.splits)

lemma monitoring_runs_with_handle:
  "libp2pNode sm = Some node \<Longrightarrow> fst (handleMonitoring call e sm) \<noteq> Inl no_node_error"
  by (cases call)
    (auto simp: handleMonitoring_def monitoring_commands no_node_error_def Let_def
      split: option.splits sum.splits)

lemma routed_to_handler:
  assumes "tool_name call \<in> set (peer_management_tools @ messaging_tools @ file_sharing_tools
                                 @ monitoring_tools)"
  shows "callTool call e sm = handlePeerManagement call e sm
       \<or> callTool call e sm = handleMessaging call e sm
       \<or> callTool call e sm = handleFileSharing call e sm
       \<or> callTool call e sm = handleMonitoring call e sm"
proof -
  have "tool_name call \<notin> set node_management_tools"
    using assms
    by (auto simp: node_management_tools_def peer_management_tools_def messaging_tools_def
        file_sharing_tools_def monitoring_tools_def)
  then show ?thesis
    using assms by (auto simp: callTool_def Let_def)
qed

lemma routed_runs_with_handle:
  assumes "libp2pNode sm = Some node"
    and "tool_name call \<in> set (peer_management_tools @ messaging_tools @ file_sharing_tools
                                 @ monitoring_tools)"
  shows "fst (callTool call e sm) \<noteq> Inl no_node_error"
  using routed_to_handler[OF assms(2), of e sm] peer_management_runs_with_handle[OF assms(1)]
    messaging_runs_with_handle[OF assms(1)] file_sharing_runs_with_handle[OF assms(1)]
    monitoring_runs_with_handle[OF assms(1)]
  by metis

lemma routed_ignores_phase:
  assumes "tool_name call \<in> set (peer_management_tools @ messaging_tools @ file_sharing_tools
                                 @ monitoring_tools)"
  shows "callTool call e (sm\<lparr>nodeStatus := phase\<rparr>)
   = (case callTool call e sm of (r, sm', calls) \<Rightarrow> (r, sm'\<lparr>nodeStatus := phase\<rparr>, calls))"
proof -
  have "tool_name call \<notin> set node_management_tools"
    using assms
    by (auto simp: node_management_tools_def peer_management_tools_def messaging_tools_def
        file_sharing_tools_def monitoring_tools_def)
  then show ?thesis
    using assms peer_management_ignores_phase[of call e phase sm]
      messaging_ignores_phase[of call e phase sm] file_sharing_ignores_phase[of call e phase sm]
      monitoring_ignores_phase[of call e phase sm]
    by (auto simp: callTool_def Let_def)
qed

lemma create_calls_startLibp2p_iff:
  "(StartLibp2p config \<in> set (snd (snd (handleNodeManagement (Create_libp2p_node config) e sm))))
   = (libp2pNode sm = None)"
  by (auto simp: handleNodeManagement_def create_libp2p_node_def Let_def
      split: option.splits sum.splits)

section \<open>The claims\<close>

text \<open>
  C1 (as amended). Every command that is not a lifecycle command fails with the error
  "No libp2p node is running. Create and start a node first." when no node handle is
  stored, with the state untouched and before any call into the network subsystem: each
  of the four handlers does so whatever the tool name, and so does the router for every
  tool name of the peer management, messaging, file sharing and monitoring lists. The
  node's phase is not part of the check. While a handle is stored no such command fails
  with that error, whatever the phase; and the phase changes nothing in what a command
  does: run in a state that differs in the phase only, it returns the same value or
  raises the same exception, makes the same calls, and leaves the same state up to the
  phase, which it keeps.
\<close>

theorem C1_absent_node_fails_before_network:
  "(libp2pNode sm = None \<longrightarrow>
      handlePeerManagement call e sm
        = (Inl (Error ''No libp2p node is running. Create and start a node first.''), sm, [])
      \<and> handleMessaging call e sm
        = (Inl (Error ''No libp2p node is running. Create and start a node first.''), sm, [])
      \<and> handleFileSharing call e sm
        = (Inl (Error ''No libp2p node is running. Create and start a node first.''), sm, [])
      \<and> handleMonitoring call e sm
        = (Inl (Error ''No libp2p node is running. Create and start a node first.''), sm, [])
      \<and> (tool_name call \<in> set (peer_management_tools @ messaging_tools @ file_sharing_tools
                                   @ monitoring_tools) \<longrightarrow>
           callTool call e sm
             = (Inl (Error ''No libp2p node is running. Create and start a node first.''), sm, [])))
   \<and> (libp2pNode sm \<noteq> None \<longrightarrow>
        fst (handlePeerManagement call e sm)
          \<noteq> Inl (Error ''No libp2p node is running. Create and start a node first.'')
        \<and> fst (handleMessaging call e sm)
          \<noteq> Inl (Error ''No libp2p node is running. Create and start a node first.'')
        \<and> fst (handleFileSharing call e sm)
          \<noteq> Inl (Error ''No libp2p node is running. Create and start a node first.'')
        \<and> fst (handleMonitoring call e sm)
          \<noteq> Inl (Error ''No libp2p node is running. Create and start a node first.'')
        \<and> (tool_name call \<in> set (peer_management_tools @ messaging_tools @ file_sharing_tools
                                     @ monitoring_tools) \<longrightarrow>
             fst (callTool call e sm)
               \<noteq> Inl (Error ''No libp2p node is running. Create and start a node first.'')))
   \<and> handlePeerManagement call e (sm\<lparr>nodeStatus := phase\<rparr>)
        = (case handlePeerManagement call e sm of
             (r, sm', calls) \<Rightarrow> (r, sm'\<lparr>nodeStatus := phase\<rparr>, calls))
   \<and> handleMessaging call e (sm\<lparr>nodeStatus := phase\<rparr>)
        = (case handleMessaging call e sm of
             (r, sm', calls) \<Rightarrow> (r, sm'\<lparr>nodeStatus := phase\<rparr>, calls))
   \<and> handleFileSharing call e (sm\<lparr>nodeStatus := phase\<rparr>)
        = (case handleFileSharing call e sm of
             (r, sm', calls) \<Rightarrow> (r, sm'\<lparr>nodeStatus := phase\<rparr>, calls))
   \<and> handleMonitoring call e (sm\<lparr>nodeStatus := phase\<rparr>)
        = (case handleMonitoring call e sm of
             (r, sm', calls) \<Rightarrow> (r, sm'\<lparr>nodeStatus := phase\<rparr>, calls))
   \<and> (tool_name call \<in> set (peer_management_tools @ messaging_tools @ file_sharing_tools
                                @ monitoring_tools) \<longrightarrow>
        callTool call e (sm\<lparr>nodeStatus := phase\<rparr>)
          = (case callTool call e sm of
               (r, sm', calls) \<Rightarrow> (r, sm'\<lparr>nodeStatus := phase\<rparr>, calls)))"
proof -
  have absent: "libp2pNode sm = None \<longrightarrow>
      handlePeerManagement call e sm
        = (Inl (Error ''No libp2p node is running. Create and start a node first.''), sm, [])
      \<and> handleMessaging call e sm
        = (Inl (Error ''No libp2p node is running. Create and start a node first.''), sm, [])
      \<and> handleFileSharing call e sm
        = (Inl (Error ''No libp2p node is running. Create and start a node first.''), sm, [])
      \<and> handleMonitoring call e sm
        = (Inl (Error ''No libp2p node is running. Create and start a node first.''), sm, [])
      \<and> (tool_name call \<in> set (peer_management_tools @ messaging_tools @ file_sharing_tools
                                   @ monitoring_tools) \<longrightarrow>
           callTool call e sm
             = (Inl (Error ''No libp2p node is running. Create and start a node first.''), sm, []))"
    using guard_peer_management[of sm call e] guard_messaging[of sm call e]
      guard_file_sharing[of sm call e] guard_monitoring[of sm call e] guard_routed[of sm call e]
    by (simp add: no_node_error_def)
  have stored: "libp2pNode sm \<noteq> None \<longrightarrow>
        fst (handlePeerManagement call e sm)
          \<noteq> Inl (Error ''No libp2p node is running. Create and start a node first.'')
        \<and> fst (handleMessaging call e sm)
          \<noteq> Inl (Error ''No libp2p node is running. Create and start a node first.'')
        \<and> fst (handleFileSharing call e sm)
          \<noteq> Inl (Error ''No libp2p node is running. Create and start a node first.'')
        \<and> fst (handleMonitoring call e sm)
          \<noteq> Inl (Error ''No libp2p node is running. Create and start a node first.'')
        \<and> (tool_name call \<in> set (peer_management_tools @ messaging_tools @ file_sharing_tools
                                     @ monitoring_tools) \<longrightarrow>
             fst (callTool call e sm)
               \<noteq> Inl (Error ''No libp2p node is running. Create and start a node first.''))"
    using peer_management_runs_with_handle[of sm _ call e] messaging_runs_with_handle[of sm _ call e]
      file_sharing_runs_with_handle[of sm _ call e] monitoring_runs_with_handle[of sm _ call e]
      routed_runs_with_handle[of sm _ call e]
    by (auto simp: no_node_error_def)
  from absent stored peer_management_ignores_phase[of call e phase sm]
    messaging_ignores_phase[of call e phase sm] file_sharing_ignores_phase[of call e phase sm]
    monitoring_ignores_phase[of call e phase sm] routed_ignores_phase[of call e phase sm]
  show ?thesis
    by blast
qed

text \<open>Witness for C1: in the initial state, \<^verbatim>\<open>subscribe_to_topic\<close> is refused by the router
  and by its handler, with no call made; with a handle stored and the phase Stopping,
  \<^verbatim>\<open>get_topic_subscribers\<close> is not refused, and does what it does when the phase is Running.\<close>

theorem C1_absent_node_witness:
  "libp2pNode initial = None
   \<and> callTool (Subscribe_to_topic ''news'') quiet_env initial
       = (Inl (Error ''No libp2p node is running. Create and start a node first.''), initial, [])
   \<and> handleMessaging (Subscribe_to_topic ''news'') quiet_env initial
       = (Inl (Error ''No libp2p node is running. Create and start a node first.''), initial, [])
   \<and> libp2pNode stopping_state \<noteq> None
   \<and> fst (callTool (Get_topic_subscribers None) quiet_env stopping_state)
       \<noteq> Inl (Error ''No libp2p node is running. Create and start a node first.'')
   \<and> callTool (Get_topic_subscribers None) quiet_env (running_state\<lparr>nodeStatus := Stopping\<rparr>)
       = (case callTool (Get_topic_subscribers None) quiet_env running_state of
            (r, sm', calls) \<Rightarrow> (r, sm'\<lparr>nodeStatus := Stopping\<rparr>, calls))"
proof -
  have absent: "libp2pNode initial = None"
    by (simp add: initial_def)
  have stored: "libp2pNode stopping_state \<noteq> None"
    by (simp add: stopping_state_def initial_def)
  have routed: "tool_name (Subscribe_to_topic ''news'')
      \<in> set (peer_management_tools @ messaging_tools @ file_sharing_tools @ monitoring_tools)"
    by (simp add: messaging_tools_def)
  have routed': "tool_name (Get_topic_subscribers None)
      \<in> set (peer_management_tools @ messaging_tools @ file_sharing_tools @ monitoring_tools)"
    by (simp add: messaging_tools_def)
  from C1_absent_node_fails_before_network[of initial "Subscribe_to_topic ''news''" quiet_env]
    absent routed
  have one: "callTool (Subscribe_to_topic ''news'') quiet_env initial
       = (Inl (Error ''No libp2p node is running. Create and start a node first.''), initial, [])
     \<and> handleMessaging (Subscribe_to_topic ''news'') quiet_env initial
       = (Inl (Error ''No libp2p node is running. Create and start a node first.''), initial, [])"
    by blast
  from C1_absent_node_fails_before_network[of stopping_state "Get_topic_subscribers None"
      quiet_env] stored routed'
  have two: "fst (callTool (Get_topic_subscribers None) quiet_env stopping_state)
       \<noteq> Inl (Error ''No libp2p node is running. Create and start a node first.'')"
    by blast
  from C1_absent_node_fails_before_network[of running_state "Get_topic_subscribers None"
      quiet_env Stopping] routed'
  have three: "callTool (Get_topic_subscribers None) quiet_env
         (running_state\<lparr>nodeStatus := Stopping\<rparr>)
       = (case callTool (Get_topic_subscribers None) quiet_env running_state of
            (r, sm', calls) \<Rightarrow> (r, sm'\<lparr>nodeStatus := Stopping\<rparr>, calls))"
    by blast
  from absent stored one two three show ?thesis
    by blast
qed

text \<open>
  Counterexample for C1 as stated (a node whose phase is not Running refuses every such
  command): from the initial state, a successful \<^verbatim>\<open>create_libp2p_node\<close> followed by a
  \<^verbatim>\<open>stop_libp2p_node\<close> whose shutdown call raises leaves the handle stored with the phase
  Stopping; \<^verbatim>\<open>get_topic_subscribers\<close> then succeeds, after a call into the network subsystem.
\<close>

theorem C1_counterexample:
  "callTool Stop_libp2p_node (quiet_env\<lparr>stop_result := Some (Raised ''shutdown failed'')\<rparr>)
       (fst (snd (callTool (Create_libp2p_node default_config) quiet_env initial)))
     = (Inl (Error ''Failed to stop libp2p node: shutdown failed''), stopping_state, [NodeStop])
   \<and> libp2pNode stopping_state = Some example_node
   \<and> nodeStatus stopping_state = Stopping
   \<and> callTool (Get_topic_subscribers None) quiet_env stopping_state
       = (Inr (TopicSubscribers CHAT_TOPIC [] 0), stopping_state, [GetSubscribers CHAT_TOPIC])"
  by (simp add: callTool_def handleNodeManagement_def handleMessaging_def
      node_management_tools_def peer_management_tools_def messaging_tools_def
      create_libp2p_node_def stop_libp2p_node_def get_topic_subscribers_def quiet_env_def
      initial_def setNodeStatus_def setLibp2pNode_def stopping_state_def)

text \<open>
  C2. When a node handle is stored, \<^verbatim>\<open>create_libp2p_node\<close> raises "Libp2p node already
  exists. Stop the current node first." at once: the whole state, with the phase and the
  stored handle, is as before, and no call into the network subsystem is made. In
  particular a create that follows a successful create fails so.
\<close>

theorem C2_create_with_existing_node_fails:
  "(libp2pNode sm \<noteq> None \<longrightarrow>
      handleNodeManagement (Create_libp2p_node config) e sm
        = (Inl (Error ''Libp2p node already exists. Stop the current node first.''), sm, [])
      \<and> callTool (Create_libp2p_node config) e sm
        = (Inl (Error ''Libp2p node already exists. Stop the current node first.''), sm, []))
   \<and> (handleNodeManagement (Create_libp2p_node config0) e0 sm0 = (Inr r0, sm, calls0) \<longrightarrow>
        handleNodeManagement (Create_libp2p_node config) e sm
          = (Inl (Error ''Libp2p node already exists. Stop the current node first.''), sm, []))"
proof -
  have existing: "libp2pNode sm \<noteq> None \<longrightarrow>
      handleNodeManagement (Create_libp2p_node config) e sm
        = (Inl (Error ''Libp2p node already exists. Stop the current node first.''), sm, [])
      \<and> callTool (Create_libp2p_node config) e sm
        = (Inl (Error ''Libp2p node already exists. Stop the current node first.''), sm, [])"
    by (auto simp: callTool_def node_management_tools_def handleNodeManagement_def
        create_libp2p_node_def)
  then show ?thesis
    using create_success_stores_node[of config0 e0 sm0 r0 sm calls0] by blast
qed

text \<open>Witness for C2: the second of two creates, from the initial state.\<close>

theorem C2_create_twice_witness:
  "handleNodeManagement (Create_libp2p_node default_config) quiet_env initial
     = (Inr (NodeCreated ''12D3KooWResponder'' [] Running), running_state,
        [StartLibp2p default_config, AddEventListener ''connection:open'',
         AddEventListener ''connection:close'', GetMultiaddrs])
   \<and> handleNodeManagement (Create_libp2p_node default_config) quiet_env running_state
     = (Inl (Error ''Libp2p node already exists. Stop the current node first.''),
        running_state, [])
   \<and> callTool (Create_libp2p_node default_config) quiet_env running_state
     = (Inl (Error ''Libp2p node already exists. Stop the current node first.''),
        running_state, [])"
proof -
  have first: "handleNodeManagement (Create_libp2p_node default_config) quiet_env initial
     = (Inr (NodeCreated ''12D3KooWResponder'' [] Running), running_state,
        [StartLibp2p default_config, AddEventListener ''connection:open'',
         AddEventListener ''connection:close'', GetMultiaddrs])"
    by (simp add: handleNodeManagement_def create_libp2p_node_def quiet_env_def initial_def
        setNodeStatus_def setLibp2pNode_def running_state_def example_node_def)
  have stored: "libp2pNode running_state \<noteq> None"
    by (simp add: running_state_def initial_def)
  from C2_create_with_existing_node_fails[of running_state default_config quiet_env
      default_config quiet_env initial "NodeCreated ''12D3KooWResponder'' [] Running"
      "[StartLibp2p default_config, AddEventListener ''connection:open'',
        AddEventListener ''connection:close'', GetMultiaddrs]"] first stored
  show ?thesis
    by blast
qed

text \<open>
  C3. \<^verbatim>\<open>create_libp2p_node\<close> calls \<^verbatim>\<open>startLibp2p\<close> exactly when no node handle is stored. In
  every such execution in which that call raises, the command raises "Failed to create
  libp2p node: ..." with the text of the failure, after that one call; the phase is
  Stopped afterwards, whatever it was before, no node handle is stored, and nothing else
  of the state has changed.
\<close>

theorem C3_failed_construction_resets_phase:
  assumes "libp2pNode sm = None"
    and "startLibp2p_result e = Inl err"
  shows "handleNodeManagement (Create_libp2p_node config) e sm
           = (Inl (Error (''Failed to create libp2p node: '' @ to_text err)),
              sm\<lparr>nodeStatus := Stopped\<rparr>, [StartLibp2p config])
       \<and> callTool (Create_libp2p_node config) e sm
           = (Inl (Error (''Failed to create libp2p node: '' @ to_text err)),
              sm\<lparr>nodeStatus := Stopped\<rparr>, [StartLibp2p config])
       \<and> nodeStatus (sm\<lparr>nodeStatus := Stopped\<rparr>) = Stopped
       \<and> libp2pNode (sm\<lparr>nodeStatus := Stopped\<rparr>) = None
       \<and> (StartLibp2p config2
             \<in> set (snd (snd (handleNodeManagement (Create_libp2p_node config2) e2 sm2))))
           = (libp2pNode sm2 = None)"
  using assms create_calls_startLibp2p_iff[of config2 e2 sm2]
  by (simp add: callTool_def node_management_tools_def handleNodeManagement_def
      create_libp2p_node_def Let_def setNodeStatus_def)

text \<open>Witness for C3: a create whose \<^verbatim>\<open>startLibp2p\<close> raises, in a state without a handle
  whose phase is Starting (another create is under way), and in the initial state.\<close>

theorem C3_failed_construction_witness:
  "handleNodeManagement (Create_libp2p_node default_config)
       (quiet_env\<lparr>startLibp2p_result := Inl (Raised ''no transport'')\<rparr>)
       (initial\<lparr>nodeStatus := Starting\<rparr>)
     = (Inl (Error ''Failed to create libp2p node: no transport''), initial,
        [StartLibp2p default_config])
   \<and> nodeStatus (initial\<lparr>nodeStatus := Starting\<rparr>) = Starting
   \<and> nodeStatus initial = Stopped
   \<and> libp2pNode initial = None
   \<and> handleNodeManagement (Create_libp2p_node default_config)
       (quiet_env\<lparr>startLibp2p_result := Inl (Raised ''no transport'')\<rparr>) initial
     = (Inl (Error ''Failed to create libp2p node: no transport''), initial,
        [StartLibp2p default_config])"
proof -
  let ?e = "quiet_env\<lparr>startLibp2p_result := Inl (Raised ''no transport'')\<rparr>"
  have absent: "libp2pNode (initial\<lparr>nodeStatus := Starting\<rparr>) = None"
    and absent': "libp2pNode initial = None"
    by (simp_all add: initial_def)
  have raised: "startLibp2p_result ?e = Inl (Raised ''no transport'')"
    by (simp add: quiet_env_def)
  have reset: "initial\<lparr>nodeStatus := Starting\<rparr>\<lparr>nodeStatus := Stopped\<rparr> = initial"
    and reset': "initial\<lparr>nodeStatus := Stopped\<rparr> = initial"
    by (simp_all add: initial_def)
  have phases: "nodeStatus (initial\<lparr>nodeStatus := Starting\<rparr>) = Starting"
    "nodeStatus initial = Stopped"
    by (simp_all add: initial_def)
  from C3_failed_construction_resets_phase[OF absent raised, of default_config]
    C3_failed_construction_resets_phase[OF absent' raised, of default_config]
    reset reset' phases absent'
  show ?thesis
    by simp
qed

text \<open>
  C4 (as amended). Let a responder with a node run \<^verbatim>\<open>share_file\<close> on arguments that give it
  the bytes \<open>fileBody\<close>. Whether or not the command then succeeds in registering its
  handler and announcing the file, the responder stores under the new identifier a file
  with exactly these bytes whose sender is the responder's own peer identifier. Let a
  peer with a node request that identifier from the responder's peer identifier, over a
  stream served by the responder's file-exchange handler in the state the share left.
  If the file is not longer than the codec's bound of 4 MiB (4194304 bytes), the empty
  file included, \<^verbatim>\<open>request_file\<close> succeeds with the size of the file, and the requester
  stores under the identifier a file with the same bytes whose sender is the responder's
  peer identifier. If the file is longer, \<^verbatim>\<open>request_file\<close> raises "Failed to request
  file: ..." and stores nothing.
\<close>

theorem C4_share_then_request_round_trip:
  assumes "libp2pNode responder = Some r"
    and "file_source filePath fileContent fileName e1 = Inr (fileBody, name)"
    and "handleFileSharing (Share_file filePath fileContent fileName announce) e1 responder
           = (res, responder', calls)"
    and "libp2pNode initiator = Some me"
    and "peerIdFromString_result e2 = None"
    and "dialProtocol_result e2 = Inr (responder_stream reset responder')"
  shows "getSharedFile responder' (uuid e1)
           = Some \<lparr> id_file = uuid e1, body = fileBody, sender = peerId_node r \<rparr>
       \<and> (length fileBody \<le> MAX_DATA_LENGTH \<longrightarrow>
            handleFileSharing (Request_file (peerId_node r) (uuid e1)) e2 initiator
              = (Inr (FileReceived (uuid e1) (peerId_node r) (length fileBody)),
                 addSharedFile \<lparr> id_file = uuid e1, body = fileBody, sender = peerId_node r \<rparr>
                   initiator,
                 [DialProtocol (peerId_node r) FILE_EXCHANGE_PROTOCOL])
            \<and> getSharedFile
                 (addSharedFile \<lparr> id_file = uuid e1, body = fileBody, sender = peerId_node r \<rparr>
                    initiator)
                 (uuid e1)
                = Some \<lparr> id_file = uuid e1, body = fileBody, sender = peerId_node r \<rparr>)
       \<and> (MAX_DATA_LENGTH < length fileBody \<longrightarrow>
            handleFileSharing (Request_file (peerId_node r) (uuid e1)) e2 initiator
              = (Inl (Error (''Failed to request file: '' @ to_text (lp_error e2))), initiator,
                 [DialProtocol (peerId_node r) FILE_EXCHANGE_PROTOCOL]))
       \<and> (handle_result e1 = None \<longrightarrow> publish_result e1 = Inr recipients \<longrightarrow>
            res = Inr (FileShared (uuid e1) name (length fileBody)
                         (case announce of None \<Rightarrow> True | Some a \<Rightarrow> a)
                         (if (case announce of None \<Rightarrow> True | Some a \<Rightarrow> a) then recipients else [])))"
proof -
  have stored: "getSharedFile responder' (uuid e1)
      = Some \<lparr> id_file = uuid e1, body = fileBody, sender = peerId_node r \<rparr>"
    using share_stores_file[OF assms(1) assms(2), of announce] assms(3) by simp
  have short: "length fileBody \<le> MAX_DATA_LENGTH \<longrightarrow>
      handleFileSharing (Request_file (peerId_node r) (uuid e1)) e2 initiator
        = (Inr (FileReceived (uuid e1) (peerId_node r) (length fileBody)),
           addSharedFile \<lparr> id_file = uuid e1, body = fileBody, sender = peerId_node r \<rparr>
             initiator,
           [DialProtocol (peerId_node r) FILE_EXCHANGE_PROTOCOL])"
    using request_of_stored_file[OF assms(4) assms(5) assms(6) stored, of "peerId_node r"]
    by simp
  have long: "MAX_DATA_LENGTH < length fileBody \<longrightarrow>
      handleFileSharing (Request_file (peerId_node r) (uuid e1)) e2 initiator
        = (Inl (Error (''Failed to request file: '' @ to_text (lp_error e2))), initiator,
           [DialProtocol (peerId_node r) FILE_EXCHANGE_PROTOCOL])"
    using request_of_long_file[OF assms(4) assms(5) assms(6) stored, of "peerId_node r"]
    by simp
  have got: "getSharedFile
        (addSharedFile \<lparr> id_file = uuid e1, body = fileBody, sender = peerId_node r \<rparr> initiator)
        (uuid e1)
      = Some \<lparr> id_file = uuid e1, body = fileBody, sender = peerId_node r \<rparr>"
    by (simp add: getSharedFile_def addSharedFile_def update_conv')
  have success: "handle_result e1 = None \<longrightarrow> publish_result e1 = Inr recipients \<longrightarrow>
      res = Inr (FileShared (uuid e1) name (length fileBody)
                   (case announce of None \<Rightarrow> True | Some a \<Rightarrow> a)
                   (if (case announce of None \<Rightarrow> True | Some a \<Rightarrow> a) then recipients else []))"
    using assms(1) assms(2) assms(3)
    by (auto simp: handleFileSharing_def share_file_def Let_def split: option.splits)
  from stored short long got success show ?thesis
    by blast
qed

text \<open>Witness for C4: a responder shares the three bytes of \<^verbatim>\<open>/tmp/a.bin\<close>; another peer
  requests the file from it.\<close>

theorem C4_round_trip_witness:
  "handleFileSharing (Share_file (Some ''/tmp/a.bin'') None None None) quiet_env running_state
     = (Inr (FileShared ''0b0e9a5c'' ''a.bin'' 3 True []), shared_state,
        [Handle FILE_EXCHANGE_PROTOCOL, Publish CHAT_FILE_TOPIC (uint8ArrayFromString ''0b0e9a5c'')])
   \<and> getSharedFile shared_state ''0b0e9a5c''
       = Some \<lparr> id_file = ''0b0e9a5c'', body = [1, 2, 3], sender = ''12D3KooWResponder'' \<rparr>
   \<and> handleFileSharing (Request_file ''12D3KooWResponder'' ''0b0e9a5c'') (dial_env shared_state)
        initiator_state
       = (Inr (FileReceived ''0b0e9a5c'' ''12D3KooWResponder'' 3),
          addSharedFile
            \<lparr> id_file = ''0b0e9a5c'', body = [1, 2, 3], sender = ''12D3KooWResponder'' \<rparr>
            initiator_state,
          [DialProtocol ''12D3KooWResponder'' FILE_EXCHANGE_PROTOCOL])
   \<and> getSharedFile
        (addSharedFile
           \<lparr> id_file = ''0b0e9a5c'', body = [1, 2, 3], sender = ''12D3KooWResponder'' \<rparr>
           initiator_state)
        ''0b0e9a5c''
       = Some \<lparr> id_file = ''0b0e9a5c'', body = [1, 2, 3], sender = ''12D3KooWResponder'' \<rparr>"
proof -
  have node: "libp2pNode running_state = Some example_node"
    by (simp add: running_state_def initial_def)
  have src: "file_source (Some ''/tmp/a.bin'') None None quiet_env = Inr ([1, 2, 3], ''a.bin'')"
    by (simp add: file_source_def truthy_def actualFileName_def quiet_env_def)
  have share: "handleFileSharing (Share_file (Some ''/tmp/a.bin'') None None None) quiet_env
       running_state
     = (Inr (FileShared ''0b0e9a5c'' ''a.bin'' 3 True []), shared_state,
        [Handle FILE_EXCHANGE_PROTOCOL, Publish CHAT_FILE_TOPIC (uint8ArrayFromString ''0b0e9a5c'')])"
    by (simp add: handleFileSharing_def share_file_def file_source_def Let_def truthy_def
        actualFileName_def addSharedFile_def quiet_env_def running_state_def initial_def
        shared_state_def example_node_def)
  have me: "libp2pNode initiator_state = Some other_node"
    by (simp add: initiator_state_def initial_def)
  have pid: "peerIdFromString_result (dial_env shared_state) = None"
    by (simp add: dial_env_def quiet_env_def)
  have dial: "dialProtocol_result (dial_env shared_state)
      = Inr (responder_stream (Raised ''stream reset'') shared_state)"
    by (simp add: dial_env_def quiet_env_def)
  have short: "length ([1, 2, 3] :: bytes) \<le> MAX_DATA_LENGTH"
    by (simp add: MAX_DATA_LENGTH_def)
  have names: "uuid quiet_env = ''0b0e9a5c''" "peerId_node example_node = ''12D3KooWResponder''"
    by (simp_all add: quiet_env_def example_node_def)
  from C4_share_then_request_round_trip[OF node src share me pid dial] short names share
  show ?thesis
    by simp
qed

text \<open>
  Counterexample for C4 as stated (for every byte sequence): a file of 4194305 bytes, one
  more than the bound of the length-prefixed codec with the default options the source
  leaves it. \<^verbatim>\<open>share_file\<close> stores and announces it; \<^verbatim>\<open>request_file\<close> for its identifier,
  served by the same responder, does not succeed and stores nothing.
\<close>

theorem C4_counterexample:
  "handleFileSharing (Share_file (Some ''/tmp/big.bin'') None None None) big_env running_state
     = (Inr (FileShared ''0b0e9a5c'' ''big.bin'' 4194305 True []), big_shared_state,
        [Handle FILE_EXCHANGE_PROTOCOL, Publish CHAT_FILE_TOPIC (uint8ArrayFromString ''0b0e9a5c'')])
   \<and> isl (fst (handleFileSharing (Request_file ''12D3KooWResponder'' ''0b0e9a5c'')
                  (dial_env big_shared_state) initiator_state))
   \<and> fst (snd (handleFileSharing (Request_file ''12D3KooWResponder'' ''0b0e9a5c'')
                  (dial_env big_shared_state) initiator_state)) = initiator_state
   \<and> getSharedFile initiator_state ''0b0e9a5c'' = None"
proof -
  have share: "handleFileSharing (Share_file (Some ''/tmp/big.bin'') None None None) big_env
       running_state
     = (Inr (FileShared ''0b0e9a5c'' ''big.bin'' 4194305 True []), big_shared_state,
        [Handle FILE_EXCHANGE_PROTOCOL, Publish CHAT_FILE_TOPIC (uint8ArrayFromString ''0b0e9a5c'')])"
    by (simp add: handleFileSharing_def share_file_def file_source_def Let_def truthy_def
        actualFileName_def addSharedFile_def big_env_def quiet_env_def running_state_def
        initial_def big_shared_state_def example_node_def length_big_file)
  have me: "libp2pNode initiator_state = Some other_node"
    by (simp add: initiator_state_def initial_def)
  have pid: "peerIdFromString_result (dial_env big_shared_state) = None"
    by (simp add: dial_env_def quiet_env_def)
  have dial: "dialProtocol_result (dial_env big_shared_state)
      = Inr (responder_stream (Raised ''stream reset'') big_shared_state)"
    by (simp add: dial_env_def quiet_env_def)
  have stored: "getSharedFile big_shared_state ''0b0e9a5c''
      = Some \<lparr> id_file = ''0b0e9a5c'', body = big_file, sender = ''12D3KooWResponder'' \<rparr>"
    by (simp add: getSharedFile_def big_shared_state_def running_state_def initial_def)
  have long: "MAX_DATA_LENGTH
      < length (body \<lparr> id_file = ''0b0e9a5c'', body = big_file, sender = ''12D3KooWResponder'' \<rparr>)"
    by (simp add: MAX_DATA_LENGTH_def length_big_file)
  have absent: "getSharedFile initiator_state ''0b0e9a5c'' = None"
    by (simp add: getSharedFile_def initiator_state_def initial_def)
  from request_of_long_file[OF me pid dial stored long, of "''12D3KooWResponder''"] share absent
  show ?thesis
    by simp
qed

text \<open>
  C5. Let a peer with a node request an identifier the responder has no file for. The
  responder's handler writes no frame and raises "File not found: ..." (the file-not-found
  condition), which fails the stream; \<^verbatim>\<open>request_file\<close> then raises "Failed to request
  file: ..." with the text of the stream's failure. Against a stream that is closed with
  no frame sent, \<^verbatim>\<open>request_file\<close> raises "Failed to request file: Error: No file data
  received". The caller tells the two outcomes apart: they differ whenever the stream's
  failure does not itself print as "Error: No file data received".
\<close>

theorem C5_file_not_found_is_not_no_data:
  assumes "libp2pNode sm = Some me"
    and "peerIdFromString_result e = None"
    and "getSharedFile responder fileId = None"
  shows "file_exchange_handler responder [uint8ArrayFromString fileId]
           = ([], Some (Error (''File not found: '' @ fileId)))
       \<and> handleFileSharing (Request_file pid fileId)
            (e\<lparr>dialProtocol_result := Inr (responder_stream reset responder)\<rparr>) sm
           = (Inl (Error (''Failed to request file: '' @ to_text reset)), sm,
              [DialProtocol pid FILE_EXCHANGE_PROTOCOL])
       \<and> handleFileSharing (Request_file pid fileId)
            (e\<lparr>dialProtocol_result := Inr (\<lambda>request. ([], Closed))\<rparr>) sm
           = (Inl (Error ''Failed to request file: Error: No file data received''), sm,
              [DialProtocol pid FILE_EXCHANGE_PROTOCOL])
       \<and> (to_text reset \<noteq> ''Error: No file data received'' \<longrightarrow>
            handleFileSharing (Request_file pid fileId)
              (e\<lparr>dialProtocol_result := Inr (responder_stream reset responder)\<rparr>) sm
            \<noteq> handleFileSharing (Request_file pid fileId)
                (e\<lparr>dialProtocol_result := Inr (\<lambda>request. ([], Closed))\<rparr>) sm)"
  using assms
  by (auto simp: handleFileSharing_def request_file_def responder_stream_def)

text \<open>Witness for C5: a request for an unknown identifier, to a responder that stores
  nothing and to a peer that closes the stream; the stream's failure prints as "stream
  reset".\<close>

theorem C5_not_found_witness:
  "handleFileSharing (Request_file ''12D3KooWResponder'' ''no-such-file'')
       (quiet_env\<lparr>dialProtocol_result :=
          Inr (responder_stream (Raised ''stream reset'') running_state)\<rparr>) initiator_state
     = (Inl (Error ''Failed to request file: stream reset''), initiator_state,
        [DialProtocol ''12D3KooWResponder'' FILE_EXCHANGE_PROTOCOL])
   \<and> handleFileSharing (Request_file ''12D3KooWResponder'' ''no-such-file'')
       (quiet_env\<lparr>dialProtocol_result := Inr (\<lambda>request. ([], Closed))\<rparr>) initiator_state
     = (Inl (Error ''Failed to request file: Error: No file data received''), initiator_state,
        [DialProtocol ''12D3KooWResponder'' FILE_EXCHANGE_PROTOCOL])
   \<and> handleFileSharing (Request_file ''12D3KooWResponder'' ''no-such-file'')
       (quiet_env\<lparr>dialProtocol_result :=
          Inr (responder_stream (Raised ''stream reset'') running_state)\<rparr>) initiator_state
     \<noteq> handleFileSharing (Request_file ''12D3KooWResponder'' ''no-such-file'')
         (quiet_env\<lparr>dialProtocol_result := Inr (\<lambda>request. ([], Closed))\<rparr>) initiator_state"
proof -
  have me: "libp2pNode initiator_state = Some other_node"
    by (simp add: initiator_state_def initial_def)
  have pid: "peerIdFromString_result quiet_env = None"
    by (simp add: quiet_env_def)
  have absent: "getSharedFile running_state ''no-such-file'' = None"
    by (simp add: getSharedFile_def running_state_def initial_def)
  have differ: "to_text (Raised ''stream reset'') \<noteq> ''Error: No file data received''"
    by simp
  from C5_file_not_found_is_not_no_data[OF me pid absent,
      of "''12D3KooWResponder''" "Raised ''stream reset''"] differ
  show ?thesis
    by simp
qed

text \<open>
  C6. After the adapter has processed a non-empty sequence of connection-open and
  connection-close events, the state is the one a single \<^verbatim>\<open>updateConnections\<close> with the
  list reported at the last event gives. The connection map \<^verbatim>\<open>updateConnections\<close> stores
  is that list keyed by connection identifier: looking an identifier up gives the last
  connection of the list that carries it, and when the identifiers of the list are
  distinct the map's entries are exactly the list's connections, each under its
  identifier, in the list's order. Replaying the same list, or the last event, leaves the
  state unchanged.
\<close>

theorem C6_connections_equal_last_report:
  "(events \<noteq> [] \<longrightarrow>
      process_events events sm = updateConnections (reported (last events)) sm)
   \<and> (distinct (map id_conn connections) \<longrightarrow>
        activeConnections (updateConnections connections sm)
          = map (\<lambda>c. (id_conn c, c)) connections)
   \<and> map_of (activeConnections (updateConnections connections sm)) k
        = find (\<lambda>c. id_conn c = k) (rev connections)
   \<and> updateConnections connections (updateConnections connections sm)
        = updateConnections connections sm
   \<and> (events \<noteq> [] \<longrightarrow>
        process_events (events @ [last events]) sm = process_events events sm)"
proof -
  have a: "events \<noteq> [] \<longrightarrow>
      process_events events sm = updateConnections (reported (last events)) sm"
    by (simp add: process_events_is_last_report)
  have b: "distinct (map id_conn connections) \<longrightarrow>
        activeConnections (updateConnections connections sm)
          = map (\<lambda>c. (id_conn c, c)) connections"
    using set_connections_distinct[of "[]" connections]
    by (simp add: updateConnections_def)
  have c: "map_of (activeConnections (updateConnections connections sm)) k
        = find (\<lambda>c. id_conn c = k) (rev connections)"
    by (simp add: updateConnections_def lookup_set_connections split: option.splits)
  have d: "events \<noteq> [] \<longrightarrow>
        process_events (events @ [last events]) sm = process_events events sm"
    by (simp add: process_events_is_last_report)
  from a b c d updateConnections_twice show ?thesis
    by blast
qed

text \<open>Witness for C6: three events, the last reporting one connection; and a report of
  two connections with distinct identifiers.\<close>

theorem C6_last_report_witness:
  "process_events
       [ConnectionOpen [conn_a], ConnectionOpen [conn_a, conn_b], ConnectionClose [conn_b]]
       running_state
     = updateConnections [conn_b] running_state
   \<and> activeConnections (updateConnections [conn_a, conn_b] running_state)
       = [(''c1'', conn_a), (''c2'', conn_b)]"
proof -
  have ne: "[ConnectionOpen [conn_a], ConnectionOpen [conn_a, conn_b], ConnectionClose [conn_b]]
      \<noteq> []"
    by simp
  have d: "distinct (map id_conn [conn_a, conn_b])"
    by (simp add: conn_a_def conn_b_def)
  have ids: "map (\<lambda>c. (id_conn c, c)) [conn_a, conn_b] = [(''c1'', conn_a), (''c2'', conn_b)]"
    by (simp add: conn_a_def conn_b_def)
  from C6_connections_equal_last_report[of
      "[ConnectionOpen [conn_a], ConnectionOpen [conn_a, conn_b], ConnectionClose [conn_b]]"
      running_state "[conn_a, conn_b]" "''c1''"] ne d ids
  show ?thesis
    by simp
qed

text \<open>
  C7 (as amended). Appending messages to a topic with \<^verbatim>\<open>addMessage\<close> extends the topic's
  history by exactly these messages, in the order of the calls: from an empty history, N
  appends give a history of length N in arrival order. The same holds for signed pubsub
  events delivered to the adapter's listener: the texts stored are the events' payloads in
  delivery order. With a node handle stored, for every topic name that is not the empty
  string and every positive \<open>k\<close>, \<^verbatim>\<open>get_message_history\<close> with that topic and \<^verbatim>\<open>limit = k\<close>
  returns the last \<open>k\<close> messages of the history, or the whole history when it holds fewer,
  and changes nothing.
\<close>

theorem C7_append_order_and_last_k:
  "getMessages (foldl (\<lambda>s m. addMessage topic m s) sm ms) topic = getMessages sm topic @ ms
   \<and> (getMessages sm topic = [] \<longrightarrow>
        getMessages (foldl (\<lambda>s m. addMessage topic m s) sm ms) topic = ms
        \<and> length (getMessages (foldl (\<lambda>s m. addMessage topic m s) sm ms) topic) = length ms)
   \<and> ((\<forall>d \<in> set events. evt_detail_type (fst d) = Some ''signed'' \<and> evt_topic (fst d) = topic)
        \<longrightarrow> map msg (getMessages (deliver events sm) topic)
              = map msg (getMessages sm topic)
                @ map (\<lambda>d. uint8ArrayToString (evt_data (fst d))) events)
   \<and> (libp2pNode sm = Some node \<longrightarrow> topic \<noteq> [] \<longrightarrow> 0 < k \<longrightarrow>
        handleMessaging (Get_message_history (Some topic) pid (Some k)) e sm
          = (Inr (TopicHistory topic
                    (drop (length (getMessages sm topic) - nat k) (getMessages sm topic))
                    (min (nat k) (length (getMessages sm topic)))),
             sm, []))"
proof -
  have a: "getMessages (foldl (\<lambda>s m. addMessage topic m s) sm ms) topic
      = getMessages sm topic @ ms"
    by (rule getMessages_addMessages)
  have b: "(\<forall>d \<in> set events. evt_detail_type (fst d) = Some ''signed'' \<and> evt_topic (fst d) = topic)
        \<longrightarrow> map msg (getMessages (deliver events sm) topic)
              = map msg (getMessages sm topic)
                @ map (\<lambda>d. uint8ArrayToString (evt_data (fst d))) events"
    using getMessages_deliver by blast
  have c: "libp2pNode sm = Some node \<longrightarrow> topic \<noteq> [] \<longrightarrow> 0 < k \<longrightarrow>
        handleMessaging (Get_message_history (Some topic) pid (Some k)) e sm
          = (Inr (TopicHistory topic
                    (drop (length (getMessages sm topic) - nat k) (getMessages sm topic))
                    (min (nat k) (length (getMessages sm topic)))),
             sm, [])"
    by (auto simp: handleMessaging_def get_message_history_def truthy_def Let_def
        slice_from_negative min_def)
  from a b c show ?thesis
    by simp
qed

text \<open>Witness for C7: three messages appended to the topic "news" of a state without
  history; then the last two of them, and all three for the limit five.\<close>

theorem C7_last_k_witness:
  "getMessages (foldl (\<lambda>s m. addMessage ''news'' m s) running_state
       [message_of ''a'', message_of ''b'', message_of ''c'']) ''news''
     = [message_of ''a'', message_of ''b'', message_of ''c'']
   \<and> handleMessaging (Get_message_history (Some ''news'') None (Some 2)) quiet_env news_state
       = (Inr (TopicHistory ''news'' [message_of ''b'', message_of ''c''] 2), news_state, [])
   \<and> handleMessaging (Get_message_history (Some ''news'') None (Some 5)) quiet_env news_state
       = (Inr (TopicHistory ''news'' [message_of ''a'', message_of ''b'', message_of ''c''] 3),
          news_state, [])"
proof -
  have fresh: "getMessages running_state ''news'' = []"
    by (simp add: getMessages_def running_state_def initial_def)
  have node: "libp2pNode news_state = Some example_node"
    by (simp add: news_state_def running_state_def initial_def)
  have hist: "getMessages news_state ''news''
      = [message_of ''a'', message_of ''b'', message_of ''c'']"
    by (simp add: getMessages_def news_state_def running_state_def initial_def)
  have ne: "''news'' \<noteq> []"
    by simp
  have k2: "(0::int) < 2" and k5: "(0::int) < 5"
    by simp_all
  from C7_append_order_and_last_k[of "''news''" running_state
        "[message_of ''a'', message_of ''b'', message_of ''c'']" "[]" example_node 2 None quiet_env]
    fresh
  have one: "getMessages (foldl (\<lambda>s m. addMessage ''news'' m s) running_state
       [message_of ''a'', message_of ''b'', message_of ''c'']) ''news''
     = [message_of ''a'', message_of ''b'', message_of ''c'']"
    by blast
  from C7_append_order_and_last_k[of "''news''" news_state "[]" "[]" example_node 2 None quiet_env]
    node ne k2 hist
  have two: "handleMessaging (Get_message_history (Some ''news'') None (Some 2)) quiet_env
       news_state
       = (Inr (TopicHistory ''news'' [message_of ''b'', message_of ''c''] 2), news_state, [])"
    by simp
  from C7_append_order_and_last_k[of "''news''" news_state "[]" "[]" example_node 5 None quiet_env]
    node ne k5 hist
  have three: "handleMessaging (Get_message_history (Some ''news'') None (Some 5)) quiet_env
       news_state
       = (Inr (TopicHistory ''news'' [message_of ''a'', message_of ''b'', message_of ''c''] 3),
          news_state, [])"
    by simp
  from one two three show ?thesis
    by blast
qed

text \<open>
  Counterexample for C7 as stated (for every topic): the topic whose name is the empty
  string. \<^verbatim>\<open>send_group_message\<close> to it succeeds and stores the message in its history;
  \<^verbatim>\<open>get_message_history\<close> for it with \<^verbatim>\<open>limit = 1\<close> does not return that message: the test
  \<^verbatim>\<open>if (topic)\<close> takes the empty string for no topic, and the command raises "Either topic
  or peerId must be specified".
\<close>

theorem C7_counterexample:
  "callTool (Send_group_message (Some []) ''hi'') quiet_env running_state
     = (Inr (GroupMessageSent [] ''hi'' [] 0), empty_topic_state,
        [Publish [] (uint8ArrayFromString ''hi'')])
   \<and> getMessages empty_topic_state [] = [message_of ''hi'']
   \<and> callTool (Get_message_history (Some []) None (Some 1)) quiet_env empty_topic_state
     = (Inl (Error ''Either topic or peerId must be specified''), empty_topic_state, [])"
  by (simp add: callTool_def node_management_tools_def peer_management_tools_def
      messaging_tools_def handleMessaging_def send_group_message_def get_message_history_def
      truthy_def Let_def addMessage_def incrementMessagesSent_def addBytesSent_def
      getMessages_def quiet_env_def running_state_def initial_def empty_topic_state_def
      message_of_def example_node_def uint8ArrayFromString_def)

text \<open>
  C8. Let \<^verbatim>\<open>subscribe_to_topic\<close> for a topic succeed and \<^verbatim>\<open>unsubscribe_from_topic\<close> for the
  same topic succeed next. The topic is in the subscription set in between and absent
  from it afterwards; the unsubscribe changes nothing but the subscription set, so every
  message history is as before; and a following \<^verbatim>\<open>get_topic_subscribers\<close> for the topic
  succeeds with whatever list of subscribers the pubsub service answers.
\<close>

theorem C8_unsubscribe_keeps_history:
  assumes "handleMessaging (Subscribe_to_topic t) e1 sm = (Inr r1, sm1, calls1)"
    and "handleMessaging (Unsubscribe_from_topic t) e2 sm1 = (Inr r2, sm2, calls2)"
  shows "t \<in> set (subscriptions sm1)
       \<and> t \<notin> set (subscriptions sm2)
       \<and> sm2 = sm1\<lparr>subscriptions := removeAll t (subscriptions sm1)\<rparr>
       \<and> messageHistory sm2 = messageHistory sm1
       \<and> getMessages sm2 t = getMessages sm1 t
       \<and> (getSubscribers_result e3 = Inr subscribers \<longrightarrow>
            handleMessaging (Get_topic_subscribers (Some t)) e3 sm2
              = (Inr (TopicSubscribers t subscribers (length subscribers)), sm2,
                 [GetSubscribers t]))"
proof -
  from assms(1) have s1: "sm1 = addSubscription t sm" and n: "libp2pNode sm \<noteq> None"
    by (auto simp: handleMessaging_def subscribe_to_topic_def Let_def
        split: option.splits sum.splits)
  from assms(2) have s2: "sm2 = removeSubscription t sm1"
    by (auto simp: handleMessaging_def unsubscribe_from_topic_def Let_def
        split: option.splits sum.splits)
  from n s1 s2 have n2: "libp2pNode sm2 \<noteq> None"
    by (simp add: addSubscription_def removeSubscription_def)
  show ?thesis
    using s1 s2 n2
    by (auto simp: addSubscription_def removeSubscription_def getMessages_def
        handleMessaging_def get_topic_subscribers_def)
qed

text \<open>Witness for C8: subscribe to "news", unsubscribe, then ask for its subscribers, in
  a state that holds three messages of the topic.\<close>

theorem C8_unsubscribe_witness:
  "handleMessaging (Subscribe_to_topic ''news'') quiet_env news_state
     = (Inr (Subscribed ''news'' []), news_state\<lparr>subscriptions := [''news'']\<rparr>,
        [Subscribe ''news'', PubsubAddEventListener ''message'', GetSubscribers ''news''])
   \<and> handleMessaging (Unsubscribe_from_topic ''news'') quiet_env
       (news_state\<lparr>subscriptions := [''news'']\<rparr>)
     = (Inr (Unsubscribed ''news''), news_state, [Unsubscribe ''news''])
   \<and> ''news'' \<notin> set (subscriptions news_state)
   \<and> getMessages news_state ''news''
       = getMessages (news_state\<lparr>subscriptions := [''news'']\<rparr>) ''news''
   \<and> handleMessaging (Get_topic_subscribers (Some ''news'')) quiet_env news_state
       = (Inr (TopicSubscribers ''news'' [] (length ([] :: string list))), news_state,
          [GetSubscribers ''news''])"
proof -
  have sub: "handleMessaging (Subscribe_to_topic ''news'') quiet_env news_state
     = (Inr (Subscribed ''news'' []), news_state\<lparr>subscriptions := [''news'']\<rparr>,
        [Subscribe ''news'', PubsubAddEventListener ''message'', GetSubscribers ''news''])"
    by (simp add: handleMessaging_def subscribe_to_topic_def Let_def addSubscription_def
        quiet_env_def news_state_def running_state_def initial_def)
  have unsub: "handleMessaging (Unsubscribe_from_topic ''news'') quiet_env
       (news_state\<lparr>subscriptions := [''news'']\<rparr>)
     = (Inr (Unsubscribed ''news''), news_state, [Unsubscribe ''news''])"
    by (simp add: handleMessaging_def unsubscribe_from_topic_def removeSubscription_def
        quiet_env_def news_state_def running_state_def initial_def)
  have answer: "getSubscribers_result quiet_env = Inr []"
    by (simp add: quiet_env_def)
  from C8_unsubscribe_keeps_history[OF sub unsub, of quiet_env "[]"] answer sub unsub
  show ?thesis
    by blast
qed

text \<open>
  C9. Every successful \<^verbatim>\<open>send_group_message\<close> leaves \<^verbatim>\<open>messagesSent\<close> one higher and
  \<^verbatim>\<open>messagesReceived\<close> one higher than before: the message sent is appended to the topic's
  history with \<^verbatim>\<open>addMessage\<close>, which counts it as received.
\<close>

theorem C9_group_send_counts_sent_and_received:
  assumes "handleMessaging (Send_group_message topic message) e sm = (Inr r, sm', calls)"
  shows "messagesSent sm' = messagesSent sm + 1
       \<and> messagesReceived sm' = messagesReceived sm + 1"
  using assms
  by (auto simp: handleMessaging_def send_group_message_def Let_def addMessage_def
      incrementMessagesSent_def addBytesSent_def split: option.splits sum.splits)

text \<open>Witness for C9: "hi" sent to the topic "news" by a running node.\<close>

theorem C9_group_send_witness:
  "handleMessaging (Send_group_message (Some ''news'') ''hi'') quiet_env running_state
      = (Inr (GroupMessageSent ''news'' ''hi'' [] 0), sent_state,
         [Publish ''news'' (uint8ArrayFromString ''hi'')])
   \<and> messagesSent sent_state = messagesSent running_state + 1
   \<and> messagesReceived sent_state = messagesReceived running_state + 1"
proof -
  have run: "handleMessaging (Send_group_message (Some ''news'') ''hi'') quiet_env running_state
      = (Inr (GroupMessageSent ''news'' ''hi'' [] 0), sent_state,
         [Publish ''news'' (uint8ArrayFromString ''hi'')])"
    by (simp add: handleMessaging_def send_group_message_def Let_def addMessage_def
        incrementMessagesSent_def addBytesSent_def quiet_env_def running_state_def initial_def
        sent_state_def message_of_def example_node_def uint8ArrayFromString_def)
  from C9_group_send_counts_sent_and_received[OF run] run show ?thesis
    by blast
qed

text \<open>
  C10 (as amended). With a node handle stored, \<^verbatim>\<open>get_message_history\<close> with \<^verbatim>\<open>limit\<close> given
  as 0 returns the entire history, not zero messages, since \<^verbatim>\<open>slice(-0)\<close> is \<^verbatim>\<open>slice(0)\<close>:
  for every topic name that is not the empty string it returns every message stored for
  the topic; and when no topic is given, or the empty string, for every peer identifier
  that is not the empty string and for which \<^verbatim>\<open>getDirectMessages\<close> gives an array, it
  returns every message of that array. \<^verbatim>\<open>getDirectMessages\<close> gives an array, the stored
  one or the empty one, for every identifier that is not a property name of
  \<^verbatim>\<open>Object.prototype\<close>; for such a name with nothing stored it gives the inherited value,
  and the command raises a \<^verbatim>\<open>TypeError\<close>.
\<close>

theorem C10_limit_zero_returns_whole_history:
  assumes "libp2pNode sm = Some node"
  shows "(topic \<noteq> [] \<longrightarrow>
           handleMessaging (Get_message_history (Some topic) pid (Some 0)) e sm
             = (Inr (TopicHistory topic (getMessages sm topic) (length (getMessages sm topic))),
                sm, []))
       \<and> (\<not> truthy topic_arg \<longrightarrow> p \<noteq> [] \<longrightarrow> getDirectMessages sm p = Messages stored \<longrightarrow>
           handleMessaging (Get_message_history topic_arg (Some p) (Some 0)) e sm
             = (Inr (DirectHistory p stored (length stored)), sm, []))
       \<and> (p \<notin> set object_prototype_names \<longrightarrow>
           getDirectMessages sm p
             = Messages (case map_of (directMessages sm) p of Some ms \<Rightarrow> ms | None \<Rightarrow> []))
       \<and> (p \<in> set object_prototype_names \<longrightarrow> map_of (directMessages sm) p = None \<longrightarrow>
           getDirectMessages sm p = Inherited_value)
       \<and> (\<not> truthy topic_arg \<longrightarrow> p \<noteq> [] \<longrightarrow> getDirectMessages sm p = Inherited_value \<longrightarrow>
           handleMessaging (Get_message_history topic_arg (Some p) limit) e sm
             = (Inl (Raised ''TypeError: stateManager.getDirectMessages(...).slice is not a function''),
                sm, []))"
  using assms
  by (auto simp: handleMessaging_def get_message_history_def truthy_def Let_def slice_from_def
      getDirectMessages_def split: option.splits)

text \<open>Witness for C10: a state with three messages of the topic "news" and one direct
  message of a peer; and the peer identifier "constructor".\<close>

theorem C10_limit_zero_witness:
  "handleMessaging (Get_message_history (Some ''news'') None (Some 0)) quiet_env chat_state
     = (Inr (TopicHistory ''news'' [message_of ''a'', message_of ''b'', message_of ''c''] 3),
        chat_state, [])
   \<and> handleMessaging (Get_message_history None (Some ''12D3KooWA'') (Some 0)) quiet_env chat_state
     = (Inr (DirectHistory ''12D3KooWA'' [message_of ''yo''] 1), chat_state, [])
   \<and> handleMessaging (Get_message_history None (Some ''constructor'') (Some 0)) quiet_env
       chat_state
     = (Inl (Raised ''TypeError: stateManager.getDirectMessages(...).slice is not a function''),
        chat_state, [])"
proof -
  have node: "libp2pNode chat_state = Some example_node"
    by (simp add: chat_state_def news_state_def running_state_def initial_def)
  have hist: "getMessages chat_state ''news''
      = [message_of ''a'', message_of ''b'', message_of ''c'']"
    by (simp add: getMessages_def chat_state_def news_state_def running_state_def initial_def)
  have own: "''12D3KooWA'' \<notin> set object_prototype_names"
    by (simp add: object_prototype_names_def)
  have stored: "map_of (directMessages chat_state) ''12D3KooWA'' = Some [message_of ''yo'']"
    by (simp add: chat_state_def news_state_def running_state_def initial_def)
  have inherited: "''constructor'' \<in> set object_prototype_names"
    by (simp add: object_prototype_names_def)
  have unset: "map_of (directMessages chat_state) ''constructor'' = None"
    by (simp add: chat_state_def news_state_def running_state_def initial_def)
  have ne: "''news'' \<noteq> []" "''12D3KooWA'' \<noteq> []" "''constructor'' \<noteq> []" "\<not> truthy None"
    by (simp_all add: truthy_def)
  from C10_limit_zero_returns_whole_history[OF node, of "''news''" None quiet_env None
      "''12D3KooWA''" "[message_of ''yo'']" "Some 0"] ne hist own stored
  have one: "handleMessaging (Get_message_history (Some ''news'') None (Some 0)) quiet_env
       chat_state
     = (Inr (TopicHistory ''news'' [message_of ''a'', message_of ''b'', message_of ''c''] 3),
        chat_state, [])
   \<and> handleMessaging (Get_message_history None (Some ''12D3KooWA'') (Some 0)) quiet_env
       chat_state
     = (Inr (DirectHistory ''12D3KooWA'' [message_of ''yo''] 1), chat_state, [])"
    by simp
  from ne inherited unset C10_limit_zero_returns_whole_history[OF node, of "''news''" None
      quiet_env None "''constructor''" "[]" "Some 0"]
  have two: "handleMessaging (Get_message_history None (Some ''constructor'') (Some 0)) quiet_env
       chat_state
     = (Inl (Raised ''TypeError: stateManager.getDirectMessages(...).slice is not a function''),
        chat_state, [])"
    by simp
  from one two show ?thesis
    by blast
qed

text \<open>
  Counterexample for C10 as stated (for every topic with a non-empty history): the topic
  whose name is the empty string. A group message sent to it gives it a history of one
  message; \<^verbatim>\<open>get_message_history\<close> for it with \<^verbatim>\<open>limit = 0\<close> returns no history at all but
  raises "Either topic or peerId must be specified", the empty string failing the test
  \<^verbatim>\<open>if (topic)\<close>.
\<close>

theorem C10_counterexample:
  "handleMessaging (Send_group_message (Some []) ''hi'') quiet_env running_state
     = (Inr (GroupMessageSent [] ''hi'' [] 0), empty_topic_state,
        [Publish [] (uint8ArrayFromString ''hi'')])
   \<and> length (getMessages empty_topic_state []) = 1
   \<and> handleMessaging (Get_message_history (Some []) None (Some 0)) quiet_env empty_topic_state
     = (Inl (Error ''Either topic or peerId must be specified''), empty_topic_state, [])"
  by (simp add: handleMessaging_def send_group_message_def get_message_history_def truthy_def
      Let_def addMessage_def incrementMessagesSent_def addBytesSent_def getMessages_def
      quiet_env_def running_state_def initial_def empty_topic_state_def message_of_def
      example_node_def uint8ArrayFromString_def)

end
